theory Spec2Isabelle
  imports Main
begin

section \<open>The C interface used by decode\_audio.c\<close>

text \<open>
  \<^verbatim>\<open>crates/tao-ffi/examples/decode_audio.c\<close> contains one function, \<open>main\<close>, which only
  sequences calls into the Tao library. The model of \<open>main\<close> therefore returns the
  sequence of library calls and output lines it performs (its trace) together with its
  exit status. C \<open>int\<close> values are modelled as \<open>int\<close>: the program only compares status
  codes and stream indices, and counts packets, frames and samples; a counter leaves the
  range of its C type only after more than \<open>2^31\<close> packets or frames.
\<close>

subsection \<open>Status codes and media types (lines 24-31)\<close>

definition TAO_OK :: int where "TAO_OK = 0"
definition TAO_ERROR :: int where "TAO_ERROR = - 1"
definition TAO_EOF :: int where "TAO_EOF = - 2"
definition TAO_NEED_MORE_DATA :: int where "TAO_NEED_MORE_DATA = - 3"

definition TAO_MEDIA_TYPE_AUDIO :: int where "TAO_MEDIA_TYPE_AUDIO = 1"
definition TAO_MEDIA_TYPE_VIDEO :: int where "TAO_MEDIA_TYPE_VIDEO = 2"

subsection \<open>Opaque handles (lines 34-37)\<close>

text \<open>
  A pointer to an opaque struct is an address, \<open>None\<close> being \<open>NULL\<close>. A packet or frame
  is its address together with the values its read-only accessors return; the program
  calls each accessor at most once per object.
\<close>

type_synonym TaoFormatContext = nat
type_synonym TaoCodecContext = nat

record TaoPacket =
  pkt_addr :: nat
  pkt_size :: int
  pkt_pts :: int
  pkt_stream_index :: int

record TaoFrame =
  frm_addr :: nat
  frm_is_audio :: int
  frm_is_video :: int
  frm_nb_samples :: int
  frm_sample_rate :: int

subsection \<open>Output lines\<close>

text \<open>
  One constructor for each \<open>printf\<close>/\<open>fprintf\<close> format string of \<open>main\<close>, in source
  order, carrying the values of its conversion arguments. The frame line of line 209
  has three conversions (frame number, sample count, sample rate); its \<open>PTS\<close> field is
  the literal text \<open>-\<close>.
\<close>

datatype out =
    Usage "string option"
  | Blank
  | Example "string option"
  | VersionLine string
  | BuildInfoLine string
  | OpenFileLine string
  | ErrOpenInput
  | StreamCountLine int
  | StreamLine int int int
  | ErrNoAudioStream
  | UsingAudioStream int int
  | ErrCreateDecoder
  | ErrOpenDecoder
  | EndOfFileLine
  | ErrReadPacket int
  | FrameLine int int int
  | DecodeDone
  | PacketsLine int
  | FramesLine int
  | TotalSamplesLine int

subsection \<open>Observable events\<close>

text \<open>
  One constructor for each function declared in lines 40-80, with its arguments. A call
  that returns a handle or a status code also records what it returned (last, after the
  arguments): the pointer, or the status and the object stored through the out-parameter.
\<close>

datatype event =
    Tao_version
  | Tao_version_int
  | Tao_build_info
  | Tao_init
  | Tao_shutdown
  | Tao_format_open_input string "TaoFormatContext option"
  | Tao_format_read_packet TaoFormatContext int "TaoPacket option"
  | Tao_format_get_stream_count TaoFormatContext
  | Tao_format_get_stream_codec_id TaoFormatContext int
  | Tao_format_get_stream_media_type TaoFormatContext int
  | Tao_format_close TaoFormatContext
  | Tao_codec_create_decoder int "TaoCodecContext option"
  | Tao_codec_open_decoder TaoCodecContext int int "nat option" int int
  | Tao_codec_send_packet TaoCodecContext TaoPacket int
  | Tao_codec_receive_frame TaoCodecContext int "TaoFrame option"
  | Tao_codec_close TaoCodecContext
  | Tao_packet_data TaoPacket
  | Tao_packet_size TaoPacket
  | Tao_packet_pts TaoPacket
  | Tao_packet_stream_index TaoPacket
  | Tao_packet_free TaoPacket
  | Tao_frame_is_audio TaoFrame
  | Tao_frame_is_video TaoFrame
  | Tao_frame_nb_samples TaoFrame
  | Tao_frame_sample_rate TaoFrame
  | Tao_frame_width TaoFrame
  | Tao_frame_height TaoFrame
  | Tao_frame_data TaoFrame int
  | Tao_frame_linesize TaoFrame int
  | Tao_frame_free TaoFrame
  | Printf out
  | Fprintf_stderr out

subsection \<open>The library as seen by one run\<close>

text \<open>
  The library is external, so a run is determined by what each call returns. Calls made
  once (or once per stream index) are functions of their arguments; the three calls made
  in loops answer from a script, the n-th call taking the n-th entry. A script that is
  used up stands for a call that has not returned: the run is then still in progress and
  has no exit status.
\<close>

record tao_lib =
  lib_version :: string
  lib_build_info :: string
  lib_open_input :: "string \<Rightarrow> TaoFormatContext option"
  lib_stream_count :: int
  lib_stream_media_type :: "int \<Rightarrow> int"
  lib_stream_codec_id :: "int \<Rightarrow> int"
  lib_create_decoder :: "int \<Rightarrow> TaoCodecContext option"
  lib_open_decoder :: "TaoCodecContext \<Rightarrow> int \<Rightarrow> int \<Rightarrow> nat option \<Rightarrow> int \<Rightarrow> int"
  lib_read_packet :: "(int \<times> TaoPacket option) list"
  lib_send_packet :: "int list"
  lib_receive_frame :: "(int \<times> TaoFrame option) list"

section \<open>The program\<close>

record counters =
  packet_count :: int
  frame_count :: int
  total_samples :: int

text \<open>\<open>argv[i]\<close>: the i-th argument string, \<open>None\<close> where \<open>argv\<close> holds no string.\<close>

definition argv_at :: "string list \<Rightarrow> nat \<Rightarrow> string option" where
  "argv_at argv i = (if i < length argv then Some (argv ! i) else None)"

text \<open>Lines 116-125: the scan for the first audio stream.\<close>

function find_audio_stream ::
  "tao_lib \<Rightarrow> TaoFormatContext \<Rightarrow> int \<Rightarrow> int \<Rightarrow> int \<times> int \<Rightarrow> event list \<times> int \<times> int" where
  "find_audio_stream lib fmt_ctx stream_count i (audio_stream, audio_codec_id) =
     (if i < stream_count then
        let media_type = lib_stream_media_type lib i;
            codec_id = lib_stream_codec_id lib i;
            ev = [Tao_format_get_stream_media_type fmt_ctx i,
                  Tao_format_get_stream_codec_id fmt_ctx i,
                  Printf (StreamLine i media_type codec_id)];
            sel = (if media_type = TAO_MEDIA_TYPE_AUDIO \<and> audio_stream < 0
                   then (i, codec_id) else (audio_stream, audio_codec_id));
            r = find_audio_stream lib fmt_ctx stream_count (i + 1) sel
        in (ev @ fst r, snd r)
      else ([], audio_stream, audio_codec_id))"
  by pat_completeness auto
termination
  by (relation "measure (\<lambda>(lib, fmt_ctx, stream_count, i, sel). nat (stream_count - i))") auto

declare find_audio_stream.simps [simp del]

text \<open>
  Lines 190-215: the frame loop. It returns the events, and, once the loop has been
  left, the counters and the unused rest of the script.
\<close>

fun receive_loop ::
  "TaoCodecContext \<Rightarrow> (int \<times> TaoFrame option) list \<Rightarrow> counters \<Rightarrow>
   event list \<times> (counters \<times> (int \<times> TaoFrame option) list) option" where
  "receive_loop dec_ctx [] c = ([], None)"
| "receive_loop dec_ctx ((ret, frame) # recvs) c =
     (if ret = TAO_NEED_MORE_DATA \<or> ret = TAO_EOF then
        ([Tao_codec_receive_frame dec_ctx ret frame], Some (c, recvs))
      else case (if ret \<noteq> TAO_OK then None else frame) of
        None \<Rightarrow> ([Tao_codec_receive_frame dec_ctx ret frame], Some (c, recvs))
      | Some f \<Rightarrow>
          let (ev, c') =
                (if frm_is_audio f \<noteq> 0 then
                   let nb_samples = frm_nb_samples f;
                       sample_rate = frm_sample_rate f;
                       c1 = c\<lparr>total_samples := total_samples c + nb_samples,
                              frame_count := frame_count c + 1\<rparr>
                   in ([Tao_frame_is_audio f, Tao_frame_nb_samples f, Tao_frame_sample_rate f]
                       @ (if frame_count c1 \<le> 5
                          then [Printf (FrameLine (frame_count c1) nb_samples sample_rate)]
                          else []),
                       c1)
                 else ([Tao_frame_is_audio f], c));
              r = receive_loop dec_ctx recvs c'
          in (Tao_codec_receive_frame dec_ctx ret frame # ev @ [Tao_frame_free f] @ fst r, snd r))"

text \<open>
  Lines 160-216: the packet loop. It returns the events, and the counters once the loop
  has been left by one of its two \<open>break\<close>s.
\<close>

fun decode_loop ::
  "TaoFormatContext \<Rightarrow> TaoCodecContext \<Rightarrow> int \<Rightarrow> (int \<times> TaoPacket option) list \<Rightarrow> int list \<Rightarrow>
   (int \<times> TaoFrame option) list \<Rightarrow> counters \<Rightarrow> event list \<times> counters option" where
  "decode_loop fmt_ctx dec_ctx audio_stream [] sends recvs c = ([], None)"
| "decode_loop fmt_ctx dec_ctx audio_stream ((ret, pkt) # reads) sends recvs c =
     (if ret = TAO_EOF then
        ([Tao_format_read_packet fmt_ctx ret pkt, Printf EndOfFileLine], Some c)
      else case (if ret \<noteq> TAO_OK then None else pkt) of
        None \<Rightarrow>
          ([Tao_format_read_packet fmt_ctx ret pkt, Fprintf_stderr (ErrReadPacket ret)], Some c)
      | Some p \<Rightarrow>
          if pkt_stream_index p \<noteq> audio_stream then
            let r = decode_loop fmt_ctx dec_ctx audio_stream reads sends recvs c
            in ([Tao_format_read_packet fmt_ctx ret pkt, Tao_packet_stream_index p,
                 Tao_packet_free p] @ fst r, snd r)
          else
            let c1 = c\<lparr>packet_count := packet_count c + 1\<rparr>;
                head = [Tao_format_read_packet fmt_ctx ret pkt, Tao_packet_stream_index p]
            in (case sends of
                 [] \<Rightarrow> (head, None)
               | sret # sends' \<Rightarrow>
                   let ev = head @ [Tao_codec_send_packet dec_ctx p sret, Tao_packet_free p]
                   in if sret \<noteq> TAO_OK then
                        let r = decode_loop fmt_ctx dec_ctx audio_stream reads sends' recvs c1
                        in (ev @ fst r, snd r)
                      else
                        (case receive_loop dec_ctx recvs c1 of
                          (fev, None) \<Rightarrow> (ev @ fev, None)
                        | (fev, Some (c2, recvs')) \<Rightarrow>
                            let r = decode_loop fmt_ctx dec_ctx audio_stream reads sends' recvs' c2
                            in (ev @ fev @ fst r, snd r))))"

text \<open>
  Lines 84-229. \<open>argc\<close> is the number of strings in \<open>argv\<close>, as the C runtime passes
  them. The result is the trace and the exit status, \<open>None\<close> while a loop is still waiting
  for the library.
\<close>

definition main :: "string list \<Rightarrow> tao_lib \<Rightarrow> event list \<times> int option" where
  "main argv lib =
     (if int (length argv) < 2 then
        ([Printf (Usage (argv_at argv 0)), Printf Blank, Printf (Example (argv_at argv 0))],
         Some 1)
      else
        let input_file = argv ! 1;
            t1 = [Tao_init,
                  Tao_version, Printf (VersionLine (lib_version lib)),
                  Tao_build_info, Printf (BuildInfoLine (lib_build_info lib)),
                  Printf Blank,
                  Printf (OpenFileLine input_file),
                  Tao_format_open_input input_file (lib_open_input lib input_file)]
        in case lib_open_input lib input_file of
             None \<Rightarrow> (t1 @ [Fprintf_stderr ErrOpenInput, Tao_shutdown], Some 1)
           | Some fmt_ctx \<Rightarrow>
               let stream_count = lib_stream_count lib;
                   t2 = [Tao_format_get_stream_count fmt_ctx,
                         Printf (StreamCountLine stream_count)];
                   (t3, audio_stream, audio_codec_id) =
                     find_audio_stream lib fmt_ctx stream_count 0 (- 1, - 1)
               in if audio_stream < 0 then
                    (t1 @ t2 @ t3 @
                     [Fprintf_stderr ErrNoAudioStream, Tao_format_close fmt_ctx, Tao_shutdown],
                     Some 1)
                  else
                    let t4 = [Printf (UsingAudioStream audio_stream audio_codec_id),
                              Tao_codec_create_decoder audio_codec_id
                                (lib_create_decoder lib audio_codec_id)]
                    in (case lib_create_decoder lib audio_codec_id of
                         None \<Rightarrow>
                           (t1 @ t2 @ t3 @ t4 @
                            [Fprintf_stderr ErrCreateDecoder, Tao_format_close fmt_ctx,
                             Tao_shutdown],
                            Some 1)
                       | Some dec_ctx \<Rightarrow>
                           let ret = lib_open_decoder lib dec_ctx 44100 2 None 0;
                               t5 = [Tao_codec_open_decoder dec_ctx 44100 2 None 0 ret]
                           in if ret \<noteq> TAO_OK then
                                (t1 @ t2 @ t3 @ t4 @ t5 @
                                 [Fprintf_stderr ErrOpenDecoder, Tao_codec_close dec_ctx,
                                  Tao_format_close fmt_ctx, Tao_shutdown],
                                 Some 1)
                              else
                                (case decode_loop fmt_ctx dec_ctx audio_stream
                                       (lib_read_packet lib) (lib_send_packet lib)
                                       (lib_receive_frame lib)
                                       \<lparr>packet_count = 0, frame_count = 0, total_samples = 0\<rparr> of
                                  (t6, None) \<Rightarrow> (t1 @ t2 @ t3 @ t4 @ t5 @ t6, None)
                                | (t6, Some c) \<Rightarrow>
                                    (t1 @ t2 @ t3 @ t4 @ t5 @ t6 @
                                     [Printf DecodeDone,
                                      Printf (PacketsLine (packet_count c)),
                                      Printf (FramesLine (frame_count c)),
                                      Printf (TotalSamplesLine (total_samples c)),
                                      Tao_codec_close dec_ctx, Tao_format_close fmt_ctx,
                                      Tao_shutdown],
                                     Some 0))))"

section \<open>The parts of a run\<close>

text \<open>
  Names for the pieces of \<open>main\<close>, used to state how a trace is built: lines 95-102,
  110-125, 134-137 and 219-227, the body of the frame loop, and the packet loop started
  on the library's scripts with all counters zero (lines 156-160).
\<close>

definition startup :: "string \<Rightarrow> tao_lib \<Rightarrow> event list" where
  "startup input_file lib =
     [Tao_init,
      Tao_version, Printf (VersionLine (lib_version lib)),
      Tao_build_info, Printf (BuildInfoLine (lib_build_info lib)),
      Printf Blank,
      Printf (OpenFileLine input_file),
      Tao_format_open_input input_file (lib_open_input lib input_file)]"

definition scan :: "tao_lib \<Rightarrow> TaoFormatContext \<Rightarrow> event list" where
  "scan lib f =
     [Tao_format_get_stream_count f, Printf (StreamCountLine (lib_stream_count lib))] @
     fst (find_audio_stream lib f (lib_stream_count lib) 0 (- 1, - 1))"

definition selected :: "tao_lib \<Rightarrow> TaoFormatContext \<Rightarrow> int \<times> int" where
  "selected lib f = snd (find_audio_stream lib f (lib_stream_count lib) 0 (- 1, - 1))"

definition create :: "tao_lib \<Rightarrow> int \<Rightarrow> int \<Rightarrow> event list" where
  "create lib a cid =
     [Printf (UsingAudioStream a cid), Tao_codec_create_decoder cid (lib_create_decoder lib cid)]"

definition wrapup :: "counters \<Rightarrow> TaoCodecContext \<Rightarrow> TaoFormatContext \<Rightarrow> event list" where
  "wrapup c d f =
     [Printf DecodeDone, Printf (PacketsLine (packet_count c)),
      Printf (FramesLine (frame_count c)), Printf (TotalSamplesLine (total_samples c)),
      Tao_codec_close d, Tao_format_close f, Tao_shutdown]"

text \<open>Lines 201-212: what the frame loop does with a frame, before releasing it.\<close>

definition frame_body :: "TaoFrame \<Rightarrow> counters \<Rightarrow> event list \<times> counters" where
  "frame_body f c =
     (if frm_is_audio f \<noteq> 0 then
        ([Tao_frame_is_audio f, Tao_frame_nb_samples f, Tao_frame_sample_rate f] @
         (if frame_count c + 1 \<le> 5
          then [Printf (FrameLine (frame_count c + 1) (frm_nb_samples f) (frm_sample_rate f))]
          else []),
         c\<lparr>total_samples := total_samples c + frm_nb_samples f,
           frame_count := frame_count c + 1\<rparr>)
      else ([Tao_frame_is_audio f], c))"

definition run_loop ::
  "tao_lib \<Rightarrow> TaoFormatContext \<Rightarrow> TaoCodecContext \<Rightarrow> int \<Rightarrow> event list \<times> counters option" where
  "run_loop lib f d a =
     decode_loop f d a (lib_read_packet lib) (lib_send_packet lib) (lib_receive_frame lib)
       \<lparr>packet_count = 0, frame_count = 0, total_samples = 0\<rparr>"

text \<open>The events of the stream scan, of the frame loop, of the packet loop, and the rest.\<close>

definition scan_event :: "event \<Rightarrow> bool" where
  "scan_event e =
     (case e of
        Tao_format_get_stream_count f \<Rightarrow> True
      | Tao_format_get_stream_media_type f i \<Rightarrow> True
      | Tao_format_get_stream_codec_id f i \<Rightarrow> True
      | Printf (StreamCountLine n) \<Rightarrow> True
      | Printf (StreamLine i m c) \<Rightarrow> True
      | _ \<Rightarrow> False)"

definition frame_event :: "event \<Rightarrow> bool" where
  "frame_event e =
     (case e of
        Tao_codec_receive_frame d ret frame \<Rightarrow> True
      | Tao_frame_is_audio f \<Rightarrow> True
      | Tao_frame_nb_samples f \<Rightarrow> True
      | Tao_frame_sample_rate f \<Rightarrow> True
      | Tao_frame_free f \<Rightarrow> True
      | Printf (FrameLine n s r) \<Rightarrow> True
      | _ \<Rightarrow> False)"

definition loop_event :: "event \<Rightarrow> bool" where
  "loop_event e =
     (case e of
        Tao_format_read_packet f ret pkt \<Rightarrow> True
      | Tao_packet_stream_index p \<Rightarrow> True
      | Tao_codec_send_packet d p r \<Rightarrow> True
      | Tao_packet_free p \<Rightarrow> True
      | Printf EndOfFileLine \<Rightarrow> True
      | Fprintf_stderr (ErrReadPacket r) \<Rightarrow> True
      | _ \<Rightarrow> frame_event e)"

definition outside_event :: "event \<Rightarrow> bool" where
  "outside_event e =
     (case e of
        Tao_version \<Rightarrow> True
      | Tao_build_info \<Rightarrow> True
      | Tao_init \<Rightarrow> True
      | Tao_shutdown \<Rightarrow> True
      | Tao_format_open_input n r \<Rightarrow> True
      | Tao_format_close f \<Rightarrow> True
      | Tao_codec_create_decoder cid r \<Rightarrow> True
      | Tao_codec_open_decoder d sr ch ex n r \<Rightarrow> True
      | Tao_codec_close d \<Rightarrow> True
      | Printf x \<Rightarrow> (case x of EndOfFileLine \<Rightarrow> False | FrameLine n s r \<Rightarrow> False
                     | ErrReadPacket r \<Rightarrow> False | _ \<Rightarrow> True)
      | Fprintf_stderr x \<Rightarrow> (case x of EndOfFileLine \<Rightarrow> False | FrameLine n s r \<Rightarrow> False
                             | ErrReadPacket r \<Rightarrow> False | _ \<Rightarrow> True)
      | _ \<Rightarrow> scan_event e)"

section \<open>Trace monitors\<close>

text \<open>
  A monitor reads a trace event by event; \<open>None\<close> is a violation. A run is accepted when
  its trace causes no violation and, if \<open>main\<close> has returned, the monitor ends in a
  state that is allowed at exit.
\<close>

fun run_monitor :: "('s \<Rightarrow> event \<Rightarrow> 's option) \<Rightarrow> 's \<Rightarrow> event list \<Rightarrow> 's option" where
  "run_monitor step s [] = Some s"
| "run_monitor step s (e # es) =
     (case step s e of None \<Rightarrow> None | Some s' \<Rightarrow> run_monitor step s' es)"

definition accepts ::
  "('s \<Rightarrow> event \<Rightarrow> 's option) \<Rightarrow> 's \<Rightarrow> ('s \<Rightarrow> bool) \<Rightarrow> event list \<times> 'r option \<Rightarrow> bool" where
  "accepts step s0 fin run =
     (case run_monitor step s0 (fst run) of
        None \<Rightarrow> False
      | Some s \<Rightarrow> snd run \<noteq> None \<longrightarrow> fin s)"


text \<open>Frame ownership, in the same way, for \<open>tao_codec_receive_frame\<close> and the frame calls.\<close>

definition frame_step :: "nat option \<Rightarrow> event \<Rightarrow> nat option option" where
  "frame_step held e =
     (case e of
        Tao_codec_receive_frame d ret frame \<Rightarrow>
          (case held of
             Some a \<Rightarrow> None
           | None \<Rightarrow> Some (if ret = TAO_OK then map_option frm_addr frame else None))
      | Tao_frame_is_audio f \<Rightarrow> (if held = Some (frm_addr f) then Some held else None)
      | Tao_frame_is_video f \<Rightarrow> (if held = Some (frm_addr f) then Some held else None)
      | Tao_frame_nb_samples f \<Rightarrow> (if held = Some (frm_addr f) then Some held else None)
      | Tao_frame_sample_rate f \<Rightarrow> (if held = Some (frm_addr f) then Some held else None)
      | Tao_frame_width f \<Rightarrow> (if held = Some (frm_addr f) then Some held else None)
      | Tao_frame_height f \<Rightarrow> (if held = Some (frm_addr f) then Some held else None)
      | Tao_frame_data f i \<Rightarrow> (if held = Some (frm_addr f) then Some held else None)
      | Tao_frame_linesize f i \<Rightarrow> (if held = Some (frm_addr f) then Some held else None)
      | Tao_frame_free f \<Rightarrow> (if held = Some (frm_addr f) then Some None else None)
      | _ \<Rightarrow> Some held)"

text \<open>
  Draining. After a submission that returned \<open>TAO_OK\<close> the decoder is being drained
  until a receive call returns one of the four stopping results; while it is drained no
  packet is read or submitted, and frames are received at no other time.
\<close>

datatype drain_state = Idle | Draining TaoCodecContext

definition drain_stop :: "int \<Rightarrow> TaoFrame option \<Rightarrow> bool" where
  "drain_stop ret frame =
     (ret = TAO_NEED_MORE_DATA \<or> ret = TAO_EOF \<or> ret \<noteq> TAO_OK \<or> frame = None)"

definition drain_step :: "drain_state \<Rightarrow> event \<Rightarrow> drain_state option" where
  "drain_step s e =
     (case e of
        Tao_codec_send_packet d p r \<Rightarrow>
          (case s of Idle \<Rightarrow> Some (if r = TAO_OK then Draining d else Idle)
           | Draining d' \<Rightarrow> None)
      | Tao_codec_receive_frame d ret frame \<Rightarrow>
          (case s of Idle \<Rightarrow> None
           | Draining d' \<Rightarrow>
               if d = d' then Some (if drain_stop ret frame then Idle else Draining d') else None)
      | Tao_format_read_packet f ret pkt \<Rightarrow>
          (case s of Idle \<Rightarrow> Some Idle | Draining d' \<Rightarrow> None)
      | _ \<Rightarrow> Some s)"



text \<open>
  The three outcomes of a read, as the specification names them, from what
  \<open>tao_format_read_packet\<close> returns.
\<close>

datatype read_result = Packet TaoPacket | EndOfStream | ReadError

definition read_outcome :: "int \<Rightarrow> TaoPacket option \<Rightarrow> read_result" where
  "read_outcome ret pkt =
     (if ret = TAO_EOF then EndOfStream
      else if ret = TAO_OK then (case pkt of Some p \<Rightarrow> Packet p | None \<Rightarrow> ReadError)
      else ReadError)"

text \<open>
  How the read loop ends. While reading, a packet keeps the loop going; end of stream must
  be followed at once by the end-of-file line on standard output, a read error by the
  error line with the status on standard error, and neither line is printed otherwise.
  After the loop no packet is read, submitted or drained, and neither line is printed
  again; \<open>read_loop_left\<close> holds of the states in which \<open>main\<close> may return.
\<close>

datatype read_state = Reading | SawEof | SawError int | EndedByEof | EndedByError

definition eof_step :: "read_state \<Rightarrow> event \<Rightarrow> read_state option" where
  "eof_step s e =
     (case s of
        Reading \<Rightarrow>
          (case e of
             Tao_format_read_packet f ret pkt \<Rightarrow>
               Some (case read_outcome ret pkt of
                       Packet p \<Rightarrow> Reading | EndOfStream \<Rightarrow> SawEof | ReadError \<Rightarrow> SawError ret)
           | Printf x \<Rightarrow> (if x = EndOfFileLine then None else Some Reading)
           | Fprintf_stderr x \<Rightarrow> (case x of ErrReadPacket r \<Rightarrow> None | _ \<Rightarrow> Some Reading)
           | _ \<Rightarrow> Some Reading)
      | SawEof \<Rightarrow> (if e = Printf EndOfFileLine then Some EndedByEof else None)
      | SawError r \<Rightarrow> (if e = Fprintf_stderr (ErrReadPacket r) then Some EndedByError else None)
      | EndedByEof \<Rightarrow>
          (case e of
             Tao_format_read_packet f ret pkt \<Rightarrow> None
           | Tao_codec_send_packet d p r \<Rightarrow> None
           | Tao_codec_receive_frame d ret frame \<Rightarrow> None
           | Printf x \<Rightarrow> (if x = EndOfFileLine then None else Some EndedByEof)
           | Fprintf_stderr x \<Rightarrow> (case x of ErrReadPacket r \<Rightarrow> None | _ \<Rightarrow> Some EndedByEof)
           | _ \<Rightarrow> Some EndedByEof)
      | EndedByError \<Rightarrow>
          (case e of
             Tao_format_read_packet f ret pkt \<Rightarrow> None
           | Tao_codec_send_packet d p r \<Rightarrow> None
           | Tao_codec_receive_frame d ret frame \<Rightarrow> None
           | Printf x \<Rightarrow> (if x = EndOfFileLine then None else Some EndedByError)
           | Fprintf_stderr x \<Rightarrow> (case x of ErrReadPacket r \<Rightarrow> None | _ \<Rightarrow> Some EndedByError)
           | _ \<Rightarrow> Some EndedByError))"

definition read_loop_left :: "read_state \<Rightarrow> bool" where
  "read_loop_left s = (s = Reading \<or> s = EndedByEof \<or> s = EndedByError)"





section \<open>A sample run\<close>

text \<open>
  A file with a video stream 0 and an audio stream 1. The first packet belongs to the
  video stream, the decoder rejects the second, accepts the third and returns one audio
  frame for it; then the file ends.
\<close>

definition demo_packet :: "nat \<Rightarrow> int \<Rightarrow> int \<Rightarrow> TaoPacket" where
  "demo_packet a pts i = \<lparr>pkt_addr = a, pkt_size = 4, pkt_pts = pts, pkt_stream_index = i\<rparr>"

definition demo_frame :: TaoFrame where
  "demo_frame = \<lparr>frm_addr = 5, frm_is_audio = 1, frm_is_video = 0, frm_nb_samples = 1024,
                 frm_sample_rate = 48000\<rparr>"

definition demo_lib :: tao_lib where
  "demo_lib =
     \<lparr>lib_version = ''0.1.0'', lib_build_info = ''release'',
      lib_open_input = (\<lambda>name. if name = ''in.wav'' then Some 7 else None),
      lib_stream_count = 2,
      lib_stream_media_type = (\<lambda>i. if i = 1 then TAO_MEDIA_TYPE_AUDIO else TAO_MEDIA_TYPE_VIDEO),
      lib_stream_codec_id = (\<lambda>i. 100 + i),
      lib_create_decoder = (\<lambda>cid. if cid = 101 then Some 9 else None),
      lib_open_decoder = (\<lambda>d sample_rate channels extra_data extra_data_size. TAO_OK),
      lib_read_packet =
        [(TAO_OK, Some (demo_packet 1 0 0)), (TAO_OK, Some (demo_packet 2 10 1)),
         (TAO_OK, Some (demo_packet 3 20 1)), (TAO_EOF, None)],
      lib_send_packet = [TAO_ERROR, TAO_OK],
      lib_receive_frame = [(TAO_OK, Some demo_frame), (TAO_NEED_MORE_DATA, None)]\<rparr>"

definition demo_argv :: "string list" where
  "demo_argv = [''decode_audio'', ''in.wav'']"

section \<open>Timestamps\<close>

text \<open>
  The packets on which \<open>tao_packet_pts\<close> is called, the packets that reads stored through
  the out-parameter, and what the program writes to standard output and standard error.
\<close>

definition pts_calls :: "event list \<Rightarrow> TaoPacket list" where
  "pts_calls t = List.map_filter (\<lambda>e. case e of Tao_packet_pts p \<Rightarrow> Some p | _ \<Rightarrow> None) t"

definition packets_read :: "event list \<Rightarrow> TaoPacket list" where
  "packets_read t =
     List.map_filter (\<lambda>e. case e of Tao_format_read_packet f ret pkt \<Rightarrow> pkt | _ \<Rightarrow> None) t"

definition printed :: "event list \<Rightarrow> event list" where
  "printed t = filter (\<lambda>e. case e of Printf x \<Rightarrow> True | Fprintf_stderr x \<Rightarrow> True | _ \<Rightarrow> False) t"

text \<open>
  The same library with other presentation timestamps in the packets it returns, and the
  same change made to the packets in an event.
\<close>

definition retime :: "(TaoPacket \<Rightarrow> int) \<Rightarrow> TaoPacket \<Rightarrow> TaoPacket" where
  "retime g p = p\<lparr>pkt_pts := g p\<rparr>"

definition retime_lib :: "(TaoPacket \<Rightarrow> int) \<Rightarrow> tao_lib \<Rightarrow> tao_lib" where
  "retime_lib g lib =
     lib\<lparr>lib_read_packet :=
           map (\<lambda>(ret, pkt). (ret, map_option (retime g) pkt)) (lib_read_packet lib)\<rparr>"

definition retime_event :: "(TaoPacket \<Rightarrow> int) \<Rightarrow> event \<Rightarrow> event" where
  "retime_event g e =
     (case e of
        Tao_format_read_packet f ret pkt \<Rightarrow> Tao_format_read_packet f ret (map_option (retime g) pkt)
      | Tao_codec_send_packet d p r \<Rightarrow> Tao_codec_send_packet d (retime g p) r
      | Tao_packet_data p \<Rightarrow> Tao_packet_data (retime g p)
      | Tao_packet_size p \<Rightarrow> Tao_packet_size (retime g p)
      | Tao_packet_pts p \<Rightarrow> Tao_packet_pts (retime g p)
      | Tao_packet_stream_index p \<Rightarrow> Tao_packet_stream_index (retime g p)
      | Tao_packet_free p \<Rightarrow> Tao_packet_free (retime g p)
      | _ \<Rightarrow> e)"

section \<open>The demuxer behind tao\_format\_read\_packet\<close>

text \<open>
  Modelled from the spec: the container behind a FormatContext. The example only declares
  \<open>tao_format_read_packet\<close>; its implementation is in the library. Section 4.1 of the
  specification describes a FormatContext as an open container with a read cursor, which
  produces the packets in container storage order, one per read call; a unit of the
  container that cannot be parsed is reported by that call as a read error (section 7,
  taxonomy b: reported per call, skip unit, continue).
\<close>

datatype stored = Stored TaoPacket | Damaged

record FormatContext =
  container :: "stored list"
  cursor :: nat

text \<open>
  Modelled from the spec: \<open>read_packet\<close> of section 4.1, which returns the next packet,
  signals EndOfStream when no further packets exist, or fails with ReadError on an
  unreadable unit.
\<close>

definition read_packet :: "FormatContext \<Rightarrow> read_result \<times> FormatContext" where
  "read_packet ctx =
     (if cursor ctx < length (container ctx) then
        ((case container ctx ! cursor ctx of Stored p \<Rightarrow> Packet p | Damaged \<Rightarrow> ReadError),
         ctx\<lparr>cursor := cursor ctx + 1\<rparr>)
      else (EndOfStream, ctx))"

text \<open>The results of \<open>n\<close> successive calls of \<open>read_packet\<close> on one context.\<close>

fun read_packets :: "nat \<Rightarrow> FormatContext \<Rightarrow> read_result list" where
  "read_packets 0 ctx = []"
| "read_packets (Suc n) ctx = fst (read_packet ctx) # read_packets n (snd (read_packet ctx))"

text \<open>The packets stored in a container, and the packets among the results of reads.\<close>

definition stored_packets :: "stored list \<Rightarrow> TaoPacket list" where
  "stored_packets xs = List.map_filter (\<lambda>x. case x of Stored p \<Rightarrow> Some p | Damaged \<Rightarrow> None) xs"

definition delivered :: "read_result list \<Rightarrow> TaoPacket list" where
  "delivered rs = List.map_filter (\<lambda>r. case r of Packet p \<Rightarrow> Some p | _ \<Rightarrow> None) rs"

definition demo_container :: FormatContext where
  "demo_container =
     \<lparr>container = [Stored (demo_packet 1 0 0), Damaged, Stored (demo_packet 2 10 1)], cursor = 0\<rparr>"

definition result_of :: "stored \<Rightarrow> read_result" where
  "result_of x = (case x of Stored p \<Rightarrow> Packet p | Damaged \<Rightarrow> ReadError)"

section \<open>The answers a run has consumed\<close>

text \<open>
  The answers of \<open>tao_format_read_packet\<close>, \<open>tao_codec_send_packet\<close> and
  \<open>tao_codec_receive_frame\<close> that a trace records, in order. A run that has no exit status
  is waiting for the library: \<open>call_pending\<close> says that the trace has consumed every
  answer of one of the three scripts, so that the next call of that function has not
  returned.
\<close>

definition reads_of :: "event list \<Rightarrow> (int \<times> TaoPacket option) list" where
  "reads_of t =
     List.map_filter
       (\<lambda>e. case e of Tao_format_read_packet f ret pkt \<Rightarrow> Some (ret, pkt) | _ \<Rightarrow> None) t"

definition sends_of :: "event list \<Rightarrow> int list" where
  "sends_of t =
     List.map_filter (\<lambda>e. case e of Tao_codec_send_packet d p r \<Rightarrow> Some r | _ \<Rightarrow> None) t"

definition recvs_of :: "event list \<Rightarrow> (int \<times> TaoFrame option) list" where
  "recvs_of t =
     List.map_filter
       (\<lambda>e. case e of Tao_codec_receive_frame d ret frame \<Rightarrow> Some (ret, frame) | _ \<Rightarrow> None) t"

definition call_pending :: "tao_lib \<Rightarrow> event list \<Rightarrow> bool" where
  "call_pending lib t =
     (reads_of t = lib_read_packet lib \<or> sends_of t = lib_send_packet lib \<or>
      recvs_of t = lib_receive_frame lib)"

text \<open>
  Where a run that is waiting for the library waits: \<open>rdg\<close>, \<open>wtg\<close> and \<open>drg\<close> are what
  is known of a monitor's state when the next read, the next submission or the next
  receive call is pending, and the pending call is one for which the trace has consumed
  every scripted answer.
\<close>

definition pending_at ::
  "('s \<Rightarrow> bool) \<Rightarrow> ('s \<Rightarrow> bool) \<Rightarrow> ('s \<Rightarrow> bool) \<Rightarrow> 's \<Rightarrow> event list \<Rightarrow>
   (int \<times> TaoPacket option) list \<Rightarrow> int list \<Rightarrow> (int \<times> TaoFrame option) list \<Rightarrow> bool" where
  "pending_at rdg wtg drg s t reads sends recvs =
     ((rdg s \<and> reads_of t = reads) \<or> (wtg s \<and> sends_of t = sends) \<or>
      (drg s \<and> recvs_of t = recvs))"


section \<open>More sample runs\<close>

text \<open>
  The same file read by a library that accepts both audio packets, returns a video frame
  and an audio frame for the first and no frame for the second, and then fails to read.
\<close>

definition demo_video_frame :: TaoFrame where
  "demo_video_frame = \<lparr>frm_addr = 6, frm_is_audio = 0, frm_is_video = 1, frm_nb_samples = 0,
                       frm_sample_rate = 0\<rparr>"

definition failing_lib :: tao_lib where
  "failing_lib =
     demo_lib
       \<lparr>lib_read_packet :=
          [(TAO_OK, Some (demo_packet 2 10 1)), (TAO_OK, Some (demo_packet 3 20 1)),
           (TAO_ERROR, None)],
        lib_send_packet := [TAO_OK, TAO_OK],
        lib_receive_frame :=
          [(TAO_OK, Some demo_video_frame), (TAO_OK, Some demo_frame),
           (TAO_NEED_MORE_DATA, None), (TAO_OK, None)]\<rparr>"

text \<open>A library whose decoder has not yet answered the second receive call.\<close>

definition draining_lib :: tao_lib where
  "draining_lib = demo_lib\<lparr>lib_receive_frame := [(TAO_OK, Some demo_frame)]\<rparr>"



section \<open>Properties\<close>

lemma status_distinct:
  "TAO_OK \<noteq> TAO_ERROR" "TAO_OK \<noteq> TAO_EOF" "TAO_OK \<noteq> TAO_NEED_MORE_DATA"
  "TAO_ERROR \<noteq> TAO_EOF" "TAO_ERROR \<noteq> TAO_NEED_MORE_DATA" "TAO_EOF \<noteq> TAO_NEED_MORE_DATA"
  "TAO_ERROR \<noteq> TAO_OK" "TAO_EOF \<noteq> TAO_OK" "TAO_NEED_MORE_DATA \<noteq> TAO_OK"
  "TAO_EOF \<noteq> TAO_ERROR" "TAO_NEED_MORE_DATA \<noteq> TAO_ERROR" "TAO_NEED_MORE_DATA \<noteq> TAO_EOF"
  by (simp_all add: TAO_OK_def TAO_ERROR_def TAO_EOF_def TAO_NEED_MORE_DATA_def)

subsection \<open>The paths through main\<close>

lemma main_cases [case_names usage no_input no_audio no_decoder not_opened running finished]:
  obtains
    "length argv < 2"
    "main argv lib =
       ([Printf (Usage (argv_at argv 0)), Printf Blank, Printf (Example (argv_at argv 0))], Some 1)"
  | "2 \<le> length argv" "lib_open_input lib (argv ! 1) = None"
    "main argv lib = (startup (argv ! 1) lib @ [Fprintf_stderr ErrOpenInput, Tao_shutdown], Some 1)"
  | f where "2 \<le> length argv" "lib_open_input lib (argv ! 1) = Some f" "fst (selected lib f) < 0"
    "main argv lib =
       (startup (argv ! 1) lib @ scan lib f @
        [Fprintf_stderr ErrNoAudioStream, Tao_format_close f, Tao_shutdown], Some 1)"
  | f a cid where "2 \<le> length argv" "lib_open_input lib (argv ! 1) = Some f"
    "selected lib f = (a, cid)" "0 \<le> a" "lib_create_decoder lib cid = None"
    "main argv lib =
       (startup (argv ! 1) lib @ scan lib f @ create lib a cid @
        [Fprintf_stderr ErrCreateDecoder, Tao_format_close f, Tao_shutdown], Some 1)"
  | f a cid d ret where "2 \<le> length argv" "lib_open_input lib (argv ! 1) = Some f"
    "selected lib f = (a, cid)" "0 \<le> a" "lib_create_decoder lib cid = Some d"
    "lib_open_decoder lib d 44100 2 None 0 = ret" "ret \<noteq> TAO_OK"
    "main argv lib =
       (startup (argv ! 1) lib @ scan lib f @ create lib a cid @
        [Tao_codec_open_decoder d 44100 2 None 0 ret,
         Fprintf_stderr ErrOpenDecoder, Tao_codec_close d, Tao_format_close f, Tao_shutdown],
        Some 1)"
  | f a cid d t where "2 \<le> length argv" "lib_open_input lib (argv ! 1) = Some f"
    "selected lib f = (a, cid)" "0 \<le> a" "lib_create_decoder lib cid = Some d"
    "lib_open_decoder lib d 44100 2 None 0 = TAO_OK"
    "run_loop lib f d a = (t, None)"
    "main argv lib =
       (startup (argv ! 1) lib @ scan lib f @ create lib a cid @
        [Tao_codec_open_decoder d 44100 2 None 0 TAO_OK] @ t, None)"
  | f a cid d t c where "2 \<le> length argv" "lib_open_input lib (argv ! 1) = Some f"
    "selected lib f = (a, cid)" "0 \<le> a" "lib_create_decoder lib cid = Some d"
    "lib_open_decoder lib d 44100 2 None 0 = TAO_OK"
    "run_loop lib f d a = (t, Some c)"
    "main argv lib =
       (startup (argv ! 1) lib @ scan lib f @ create lib a cid @
        [Tao_codec_open_decoder d 44100 2 None 0 TAO_OK] @ t @ wrapup c d f, Some 0)"
proof (cases "length argv < 2")
  case True
  then show ?thesis using that(1) by (simp add: main_def Let_def)
next
  case long: False
  show ?thesis
  proof (cases "lib_open_input lib (argv ! 1)")
    case None
    then show ?thesis using long that(2) by (simp add: main_def Let_def startup_def)
  next
    case (Some f)
    obtain t3 a cid where
      fa: "find_audio_stream lib f (lib_stream_count lib) 0 (- 1, - 1) = (t3, a, cid)"
      by (cases "find_audio_stream lib f (lib_stream_count lib) 0 (- 1, - 1)")
    have sel: "selected lib f = (a, cid)" and
      sc: "scan lib f =
             [Tao_format_get_stream_count f, Printf (StreamCountLine (lib_stream_count lib))] @ t3"
      using fa by (simp_all add: selected_def scan_def)
    show ?thesis
    proof (cases "a < 0")
      case True
      have "main argv lib =
              (startup (argv ! 1) lib @ scan lib f @
               [Fprintf_stderr ErrNoAudioStream, Tao_format_close f, Tao_shutdown], Some 1)"
        using long Some fa True by (simp add: main_def Let_def startup_def sc)
      then show ?thesis using long Some sel True that(3)[of f] by simp
    next
      case pos: False
      show ?thesis
      proof (cases "lib_create_decoder lib cid")
        case None
        have "main argv lib =
                (startup (argv ! 1) lib @ scan lib f @ create lib a cid @
                 [Fprintf_stderr ErrCreateDecoder, Tao_format_close f, Tao_shutdown], Some 1)"
          using long Some fa pos None by (simp add: main_def Let_def startup_def sc create_def)
        then show ?thesis using long Some sel pos None that(4)[of f a cid] by simp
      next
        case dec: (Some d)
        show ?thesis
        proof (cases "lib_open_decoder lib d 44100 2 None 0 = TAO_OK")
          case False
          have "main argv lib =
                  (startup (argv ! 1) lib @ scan lib f @ create lib a cid @
                   [Tao_codec_open_decoder d 44100 2 None 0 (lib_open_decoder lib d 44100 2 None 0),
                    Fprintf_stderr ErrOpenDecoder, Tao_codec_close d, Tao_format_close f,
                    Tao_shutdown], Some 1)"
            using long Some fa pos dec False
            by (simp add: main_def Let_def startup_def sc create_def)
          then show ?thesis using long Some sel pos dec False that(5)[of f a cid d] by simp
        next
          case ok: True
          obtain t r where loop: "run_loop lib f d a = (t, r)" by (cases "run_loop lib f d a")
          show ?thesis
          proof (cases r)
            case None
            have "main argv lib =
                    (startup (argv ! 1) lib @ scan lib f @ create lib a cid @
                     [Tao_codec_open_decoder d 44100 2 None 0 TAO_OK] @ t, None)"
              using long Some fa pos dec ok loop None
              by (simp add: main_def Let_def startup_def sc create_def run_loop_def)
            then show ?thesis using long Some sel pos dec ok loop None that(6)[of f a cid d t]
              by simp
          next
            case fin: (Some c)
            have "main argv lib =
                    (startup (argv ! 1) lib @ scan lib f @ create lib a cid @
                     [Tao_codec_open_decoder d 44100 2 None 0 TAO_OK] @ t @ wrapup c d f, Some 0)"
              using long Some fa pos dec ok loop fin
              by (simp add: main_def Let_def startup_def sc create_def run_loop_def wrapup_def)
            then show ?thesis using long Some sel pos dec ok loop fin that(7)[of f a cid d t c]
              by simp
          qed
        qed
      qed
    qed
  qed
qed


subsection \<open>Which events occur where\<close>

lemma find_audio_stream_events:
  "e \<in> set (fst (find_audio_stream lib f n i sel)) \<Longrightarrow> scan_event e"
proof (induction lib f n i sel rule: find_audio_stream.induct)
  case (1 lib f n i a cid)
  show ?case
  proof (cases "i < n")
    case True
    with "1.prems" "1.IH" show ?thesis
      by (subst (asm) find_audio_stream.simps)
         (auto simp: Let_def scan_event_def split: if_splits)
  next
    case False
    with "1.prems" show ?thesis
      by (subst (asm) find_audio_stream.simps) simp
  qed
qed

lemma scan_events: "e \<in> set (scan lib f) \<Longrightarrow> scan_event e"
  by (auto simp: scan_def scan_event_def dest: find_audio_stream_events)

lemma scan_event_outside: "scan_event e \<Longrightarrow> outside_event e"
  by (cases e) (auto simp: scan_event_def outside_event_def split: out.splits)

lemma startup_events: "e \<in> set (startup n lib) \<Longrightarrow> outside_event e"
  by (auto simp: startup_def outside_event_def)

lemma create_events: "e \<in> set (create lib a cid) \<Longrightarrow> outside_event e"
  by (auto simp: create_def outside_event_def)

lemma wrapup_events: "e \<in> set (wrapup c d f) \<Longrightarrow> outside_event e"
  by (auto simp: wrapup_def outside_event_def)

lemma receive_loop_events:
  "e \<in> set (fst (receive_loop d recvs c)) \<Longrightarrow> frame_event e"
  by (induction d recvs c rule: receive_loop.induct)
     (auto simp: Let_def frame_event_def split: if_splits option.splits prod.splits)

lemma frame_event_loop: "frame_event e \<Longrightarrow> loop_event e"
  by (cases e) (auto simp: loop_event_def split: out.splits)

lemma decode_loop_events:
  "e \<in> set (fst (decode_loop f d a reads sends recvs c)) \<Longrightarrow> loop_event e"
proof (induction f d a reads sends recvs c rule: decode_loop.induct)
  case (1 f d a sends recvs c)
  then show ?case by simp
next
  case (2 f d a ret pkt reads sends recvs c)
  have fr: "\<And>ev r c'. receive_loop d recvs c' = (ev, r) \<Longrightarrow> e \<in> set ev \<Longrightarrow> loop_event e"
    using receive_loop_events frame_event_loop by (metis fst_conv)
  from "2.prems" "2.IH" fr show ?case
    by (auto simp: Let_def loop_event_def
             split: if_splits option.splits prod.splits list.splits)
qed

lemma loop_not_outside: "loop_event e \<Longrightarrow> \<not> outside_event e"
  by (cases e)
     (auto simp: loop_event_def outside_event_def frame_event_def scan_event_def
           split: out.splits)

text \<open>
  Every trace of \<open>main\<close> is either made of events outside the packet loop only, or is
  such a prefix, the trace of the packet loop, and such a suffix, which is empty unless
  the loop was left.
\<close>

lemma main_shape [case_names direct looped]:
  obtains
    "\<forall>e \<in> set (fst (main argv lib)). outside_event e" "snd (main argv lib) = Some 1"
  | pre f d a post where
      "fst (main argv lib) = pre @ fst (run_loop lib f d a) @ post"
      "\<forall>e \<in> set pre. outside_event e" "\<forall>e \<in> set post. outside_event e"
      "snd (run_loop lib f d a) = None \<longrightarrow> post = [] \<and> snd (main argv lib) = None"
      "snd (run_loop lib f d a) \<noteq> None \<longrightarrow> snd (main argv lib) = Some 0"
proof (cases rule: main_cases [of argv lib])
  case usage
  then show ?thesis using that(1) by (simp add: outside_event_def)
next
  case no_input
  then show ?thesis using that(1) startup_events [of _ "argv ! 1" lib]
    by (auto simp: outside_event_def)
next
  case (no_audio f)
  then show ?thesis
    using that(1) startup_events [of _ "argv ! 1" lib] scan_events [of _ lib f] scan_event_outside
    by (auto simp: outside_event_def)
next
  case (no_decoder f a cid)
  then show ?thesis
    using that(1) startup_events [of _ "argv ! 1" lib] scan_events [of _ lib f] scan_event_outside
      create_events [of _ lib a cid]
    by (auto simp: outside_event_def)
next
  case (not_opened f a cid d ret)
  then show ?thesis
    using that(1) startup_events [of _ "argv ! 1" lib] scan_events [of _ lib f] scan_event_outside
      create_events [of _ lib a cid]
    by (auto simp: outside_event_def)
next
  case (running f a cid d t)
  have "\<forall>e \<in> set (startup (argv ! 1) lib @ scan lib f @ create lib a cid @
                   [Tao_codec_open_decoder d 44100 2 None 0 TAO_OK]). outside_event e"
    using startup_events [of _ "argv ! 1" lib] scan_events [of _ lib f] scan_event_outside
      create_events [of _ lib a cid]
    by (auto simp: outside_event_def)
  then show ?thesis
    using running that(2) [of "startup (argv ! 1) lib @ scan lib f @ create lib a cid @
                   [Tao_codec_open_decoder d 44100 2 None 0 TAO_OK]" f d a "[]"]
    by simp
next
  case (finished f a cid d t c)
  have "\<forall>e \<in> set (startup (argv ! 1) lib @ scan lib f @ create lib a cid @
                   [Tao_codec_open_decoder d 44100 2 None 0 TAO_OK]). outside_event e"
    using startup_events [of _ "argv ! 1" lib] scan_events [of _ lib f] scan_event_outside
      create_events [of _ lib a cid]
    by (auto simp: outside_event_def)
  then show ?thesis
    using finished wrapup_events [of _ c d f]
      that(2) [of "startup (argv ! 1) lib @ scan lib f @ create lib a cid @
                   [Tao_codec_open_decoder d 44100 2 None 0 TAO_OK]" f d a "wrapup c d f"]
    by simp
qed

subsection \<open>Monitors\<close>

lemma run_monitor_append:
  "run_monitor step s (xs @ ys) =
     (case run_monitor step s xs of None \<Rightarrow> None | Some s' \<Rightarrow> run_monitor step s' ys)"
  by (induction xs arbitrary: s) (auto split: option.splits)

lemma run_monitor_neutral:
  "(\<And>e. e \<in> set es \<Longrightarrow> step s e = Some s) \<Longrightarrow> run_monitor step s es = Some s"
  by (induction es) auto


lemma demo_selected: "selected demo_lib 7 = (1, 101)"
  by (simp add: selected_def demo_lib_def find_audio_stream.simps Let_def
        TAO_MEDIA_TYPE_AUDIO_def TAO_MEDIA_TYPE_VIDEO_def)

lemma demo_scan:
  "scan demo_lib 7 =
     [Tao_format_get_stream_count 7, Printf (StreamCountLine 2),
      Tao_format_get_stream_media_type 7 0, Tao_format_get_stream_codec_id 7 0,
      Printf (StreamLine 0 2 100),
      Tao_format_get_stream_media_type 7 1, Tao_format_get_stream_codec_id 7 1,
      Printf (StreamLine 1 1 101)]"
  by (simp add: scan_def demo_lib_def find_audio_stream.simps Let_def
        TAO_MEDIA_TYPE_AUDIO_def TAO_MEDIA_TYPE_VIDEO_def)

lemma demo_loop:
  "run_loop demo_lib 7 9 1 =
     ([Tao_format_read_packet 7 TAO_OK (Some (demo_packet 1 0 0)),
       Tao_packet_stream_index (demo_packet 1 0 0),
       Tao_packet_free (demo_packet 1 0 0),
       Tao_format_read_packet 7 TAO_OK (Some (demo_packet 2 10 1)),
       Tao_packet_stream_index (demo_packet 2 10 1),
       Tao_codec_send_packet 9 (demo_packet 2 10 1) TAO_ERROR,
       Tao_packet_free (demo_packet 2 10 1),
       Tao_format_read_packet 7 TAO_OK (Some (demo_packet 3 20 1)),
       Tao_packet_stream_index (demo_packet 3 20 1),
       Tao_codec_send_packet 9 (demo_packet 3 20 1) TAO_OK,
       Tao_packet_free (demo_packet 3 20 1),
       Tao_codec_receive_frame 9 TAO_OK (Some demo_frame),
       Tao_frame_is_audio demo_frame, Tao_frame_nb_samples demo_frame,
       Tao_frame_sample_rate demo_frame, Printf (FrameLine 1 1024 48000),
       Tao_frame_free demo_frame,
       Tao_codec_receive_frame 9 TAO_NEED_MORE_DATA None,
       Tao_format_read_packet 7 TAO_EOF None, Printf EndOfFileLine],
      Some \<lparr>packet_count = 2, frame_count = 1, total_samples = 1024\<rparr>)"
  by (simp add: run_loop_def demo_lib_def Let_def status_distinct demo_packet_def demo_frame_def)

lemma demo_fields:
  "lib_open_input demo_lib ''in.wav'' = Some 7" "lib_stream_count demo_lib = 2"
  "lib_create_decoder demo_lib 101 = Some 9" "lib_open_decoder demo_lib d sr ch ex n = TAO_OK"
  by (simp_all add: demo_lib_def)

lemma demo_find:
  "find_audio_stream demo_lib 7 2 0 (- 1, - 1) =
     ([Tao_format_get_stream_media_type 7 0, Tao_format_get_stream_codec_id 7 0,
       Printf (StreamLine 0 2 100),
       Tao_format_get_stream_media_type 7 1, Tao_format_get_stream_codec_id 7 1,
       Printf (StreamLine 1 1 101)], 1, 101)"
  by (simp add: demo_lib_def find_audio_stream.simps Let_def
        TAO_MEDIA_TYPE_AUDIO_def TAO_MEDIA_TYPE_VIDEO_def)

lemma demo_main:
  "main demo_argv demo_lib =
     (startup ''in.wav'' demo_lib @ scan demo_lib 7 @ create demo_lib 1 101 @
      [Tao_codec_open_decoder 9 44100 2 None 0 TAO_OK] @ fst (run_loop demo_lib 7 9 1) @
      wrapup \<lparr>packet_count = 2, frame_count = 1, total_samples = 1024\<rparr> 9 7, Some 0)"
  by (simp add: main_def demo_argv_def demo_fields demo_find Let_def startup_def scan_def
        create_def wrapup_def run_loop_def [symmetric] demo_loop)

lemma demo_status: "snd (main demo_argv demo_lib) = Some 0"
  by (simp add: demo_main)

subsection \<open>The loops, iteration by iteration\<close>

lemma not_drain_stop: "\<not> drain_stop ret frame \<Longrightarrow> ret = TAO_OK \<and> (\<exists>fr. frame = Some fr)"
  by (auto simp: drain_stop_def)

lemma receive_loop_stop:
  "drain_stop ret frame \<Longrightarrow>
   receive_loop d ((ret, frame) # recvs) c = ([Tao_codec_receive_frame d ret frame], Some (c, recvs))"
  by (auto simp: drain_stop_def)

lemma receive_loop_frame:
  "receive_loop d ((TAO_OK, Some fr) # recvs) c =
     (Tao_codec_receive_frame d TAO_OK (Some fr) # fst (frame_body fr c) @ [Tao_frame_free fr] @
      fst (receive_loop d recvs (snd (frame_body fr c))),
      snd (receive_loop d recvs (snd (frame_body fr c))))"
  by (simp add: frame_body_def Let_def status_distinct)

lemma decode_loop_eof:
  "decode_loop f d a ((TAO_EOF, pkt) # reads) sends recvs c =
     ([Tao_format_read_packet f TAO_EOF pkt, Printf EndOfFileLine], Some c)"
  by simp

lemma decode_loop_error:
  "ret \<noteq> TAO_EOF \<Longrightarrow> ret \<noteq> TAO_OK \<or> pkt = None \<Longrightarrow>
   decode_loop f d a ((ret, pkt) # reads) sends recvs c =
     ([Tao_format_read_packet f ret pkt, Fprintf_stderr (ErrReadPacket ret)], Some c)"
  by auto

lemma decode_loop_skip:
  "pkt_stream_index p \<noteq> a \<Longrightarrow>
   decode_loop f d a ((TAO_OK, Some p) # reads) sends recvs c =
     ([Tao_format_read_packet f TAO_OK (Some p), Tao_packet_stream_index p, Tao_packet_free p] @
      fst (decode_loop f d a reads sends recvs c),
      snd (decode_loop f d a reads sends recvs c))"
  by (simp add: status_distinct Let_def)

lemma decode_loop_wait:
  "pkt_stream_index p = a \<Longrightarrow>
   decode_loop f d a ((TAO_OK, Some p) # reads) [] recvs c =
     ([Tao_format_read_packet f TAO_OK (Some p), Tao_packet_stream_index p], None)"
  by (simp add: status_distinct Let_def)

lemma decode_loop_rejected:
  "pkt_stream_index p = a \<Longrightarrow> r \<noteq> TAO_OK \<Longrightarrow>
   decode_loop f d a ((TAO_OK, Some p) # reads) (r # sends) recvs c =
     ([Tao_format_read_packet f TAO_OK (Some p), Tao_packet_stream_index p,
       Tao_codec_send_packet d p r, Tao_packet_free p] @
      fst (decode_loop f d a reads sends recvs (c\<lparr>packet_count := packet_count c + 1\<rparr>)),
      snd (decode_loop f d a reads sends recvs (c\<lparr>packet_count := packet_count c + 1\<rparr>)))"
  by (simp add: status_distinct Let_def)

lemma decode_loop_accepted:
  "pkt_stream_index p = a \<Longrightarrow>
   decode_loop f d a ((TAO_OK, Some p) # reads) (TAO_OK # sends) recvs c =
     (case receive_loop d recvs (c\<lparr>packet_count := packet_count c + 1\<rparr>) of
        (fev, None) \<Rightarrow>
          ([Tao_format_read_packet f TAO_OK (Some p), Tao_packet_stream_index p,
            Tao_codec_send_packet d p TAO_OK, Tao_packet_free p] @ fev, None)
      | (fev, Some (c2, recvs')) \<Rightarrow>
          ([Tao_format_read_packet f TAO_OK (Some p), Tao_packet_stream_index p,
            Tao_codec_send_packet d p TAO_OK, Tao_packet_free p] @ fev @
           fst (decode_loop f d a reads sends recvs' c2),
           snd (decode_loop f d a reads sends recvs' c2)))"
  by (simp add: status_distinct Let_def split: prod.splits option.splits)

subsection \<open>Monitors on the loops\<close>

text \<open>
  An invariant rule for the frame loop: \<open>drg\<close> holds of the monitor's state whenever
  \<open>tao_codec_receive_frame\<close> is about to be called, \<open>rdg\<close> once the loop has been left.
\<close>

lemma receive_loop_monitor:
  assumes stop: "\<And>s ret frame. drg s \<Longrightarrow> drain_stop ret frame \<Longrightarrow>
                   \<exists>s'. step s (Tao_codec_receive_frame d ret frame) = Some s' \<and> rdg s'"
    and frame: "\<And>s fr c. drg s \<Longrightarrow>
                   \<exists>s'. run_monitor step s
                          (Tao_codec_receive_frame d TAO_OK (Some fr) # fst (frame_body fr c) @
                           [Tao_frame_free fr]) = Some s' \<and> drg s'"
    and start: "drg s"
  shows "\<exists>s'. run_monitor step s (fst (receive_loop d recvs c)) = Some s' \<and>
              (if snd (receive_loop d recvs c) = None then drg s' else rdg s')"
  using start
proof (induction recvs arbitrary: s c)
  case Nil
  then show ?case by simp
next
  case (Cons x recvs)
  obtain ret frame where x: "x = (ret, frame)" by (cases x)
  show ?case
  proof (cases "drain_stop ret frame")
    case True
    then show ?thesis using stop [OF Cons.prems True] by (simp only: x receive_loop_stop) auto
  next
    case False
    then obtain fr where fr: "ret = TAO_OK" "frame = Some fr" using not_drain_stop by blast
    from frame [OF Cons.prems, of fr c] obtain s1 where
      s1: "run_monitor step s
             (Tao_codec_receive_frame d TAO_OK (Some fr) # fst (frame_body fr c) @
              [Tao_frame_free fr]) = Some s1" "drg s1"
      by blast
    from Cons.IH [OF s1(2), of "snd (frame_body fr c)"] obtain s2 where
      s2: "run_monitor step s1 (fst (receive_loop d recvs (snd (frame_body fr c)))) = Some s2"
          "if snd (receive_loop d recvs (snd (frame_body fr c))) = None then drg s2 else rdg s2"
      by blast
    have "run_monitor step s
            ((Tao_codec_receive_frame d TAO_OK (Some fr) # fst (frame_body fr c) @
              [Tao_frame_free fr]) @ fst (receive_loop d recvs (snd (frame_body fr c)))) = Some s2"
      by (simp only: run_monitor_append s1 s2 option.case)
    then show ?thesis using s2(2) by (simp only: x fr receive_loop_frame) simp
  qed
qed


subsection \<open>Packet ownership\<close>






subsection \<open>Initialisation, contexts and shutdown\<close>










lemma receive_loop_frame_event:
  "receive_loop d recvs c = (ev, r) \<Longrightarrow> e \<in> set ev \<Longrightarrow> frame_event e"
  using receive_loop_events [of e d recvs c] by simp

lemma decode_loop_cases [case_names eof error skip wait rejected stuck drained]:
  obtains
    "ret = TAO_EOF"
    "decode_loop f d a ((ret, pkt) # reads) sends recvs c =
       ([Tao_format_read_packet f ret pkt, Printf EndOfFileLine], Some c)"
  | "ret \<noteq> TAO_EOF" "ret \<noteq> TAO_OK \<or> pkt = None"
    "decode_loop f d a ((ret, pkt) # reads) sends recvs c =
       ([Tao_format_read_packet f ret pkt, Fprintf_stderr (ErrReadPacket ret)], Some c)"
  | p where "ret = TAO_OK" "pkt = Some p" "pkt_stream_index p \<noteq> a"
    "decode_loop f d a ((ret, pkt) # reads) sends recvs c =
       ([Tao_format_read_packet f TAO_OK (Some p), Tao_packet_stream_index p, Tao_packet_free p] @
        fst (decode_loop f d a reads sends recvs c),
        snd (decode_loop f d a reads sends recvs c))"
  | p where "ret = TAO_OK" "pkt = Some p" "pkt_stream_index p = a" "sends = []"
    "decode_loop f d a ((ret, pkt) # reads) sends recvs c =
       ([Tao_format_read_packet f TAO_OK (Some p), Tao_packet_stream_index p], None)"
  | p r sends' where "ret = TAO_OK" "pkt = Some p" "pkt_stream_index p = a"
    "sends = r # sends'" "r \<noteq> TAO_OK"
    "decode_loop f d a ((ret, pkt) # reads) sends recvs c =
       ([Tao_format_read_packet f TAO_OK (Some p), Tao_packet_stream_index p,
         Tao_codec_send_packet d p r, Tao_packet_free p] @
        fst (decode_loop f d a reads sends' recvs (c\<lparr>packet_count := packet_count c + 1\<rparr>)),
        snd (decode_loop f d a reads sends' recvs (c\<lparr>packet_count := packet_count c + 1\<rparr>)))"
  | p sends' fev where "ret = TAO_OK" "pkt = Some p" "pkt_stream_index p = a"
    "sends = TAO_OK # sends'"
    "receive_loop d recvs (c\<lparr>packet_count := packet_count c + 1\<rparr>) = (fev, None)"
    "decode_loop f d a ((ret, pkt) # reads) sends recvs c =
       ([Tao_format_read_packet f TAO_OK (Some p), Tao_packet_stream_index p,
         Tao_codec_send_packet d p TAO_OK, Tao_packet_free p] @ fev, None)"
  | p sends' fev c2 recvs' where "ret = TAO_OK" "pkt = Some p" "pkt_stream_index p = a"
    "sends = TAO_OK # sends'"
    "receive_loop d recvs (c\<lparr>packet_count := packet_count c + 1\<rparr>) = (fev, Some (c2, recvs'))"
    "decode_loop f d a ((ret, pkt) # reads) sends recvs c =
       ([Tao_format_read_packet f TAO_OK (Some p), Tao_packet_stream_index p,
         Tao_codec_send_packet d p TAO_OK, Tao_packet_free p] @ fev @
        fst (decode_loop f d a reads sends' recvs' c2),
        snd (decode_loop f d a reads sends' recvs' c2))"
proof (cases "ret = TAO_EOF")
  case True
  then show ?thesis using that(1) decode_loop_eof by simp
next
  case ne: False
  show ?thesis
  proof (cases "ret \<noteq> TAO_OK \<or> pkt = None")
    case True
    then show ?thesis using that(2) [OF ne True] decode_loop_error [OF ne True] by simp
  next
    case False
    then obtain p where p: "ret = TAO_OK" "pkt = Some p" by auto
    show ?thesis
    proof (cases "pkt_stream_index p = a")
      case other: False
      show ?thesis using that(3) [OF p other] decode_loop_skip [OF other] p by simp
    next
      case same: True
      show ?thesis
      proof (cases sends)
        case Nil
        then show ?thesis using that(4) [OF p same] decode_loop_wait [OF same] p by simp
      next
        case (Cons r sends')
        show ?thesis
        proof (cases "r = TAO_OK")
          case bad: False
          show ?thesis
            using that(5) [OF p same Cons bad] decode_loop_rejected [OF same bad] p Cons by simp
        next
          case True
          obtain fev res where
            rl: "receive_loop d recvs (c\<lparr>packet_count := packet_count c + 1\<rparr>) = (fev, res)"
            by (cases "receive_loop d recvs (c\<lparr>packet_count := packet_count c + 1\<rparr>)")
          show ?thesis
          proof (cases res)
            case None
            then show ?thesis
              using that(6) [OF p same _ rl [unfolded None]] Cons True
              by (simp add: p decode_loop_accepted [OF same] rl del: decode_loop.simps)
          next
            case (Some cr)
            obtain c2 recvs' where cr: "cr = (c2, recvs')" by (cases cr)
            show ?thesis
              using that(7) [OF p same _ rl [unfolded Some cr]] Cons True
              by (simp add: p decode_loop_accepted [OF same] rl Some cr del: decode_loop.simps)
          qed
        qed
      qed
    qed
  qed
qed

subsection \<open>Routing by stream index\<close>

lemma decode_loop_sends:
  "Tao_codec_send_packet d' p r \<in> set (fst (decode_loop f d a reads sends recvs c)) \<Longrightarrow>
   d' = d \<and> pkt_stream_index p = a"
proof (induction reads arbitrary: sends recvs c)
  case Nil
  then show ?case by simp
next
  case (Cons x reads)
  obtain ret pkt where x: "x = (ret, pkt)" by (cases x)
  have nf: "Tao_codec_send_packet d' p r \<notin> set fev" if "receive_loop d recvs c' = (fev, res)"
    for fev res c'
    using receive_loop_frame_event [OF that, of "Tao_codec_send_packet d' p r"]
    by (auto simp: frame_event_def)
  from Cons.prems show ?case unfolding x
  proof (cases rule: decode_loop_cases [of ret f d a pkt reads sends recvs c])
    case eof
    with Cons.prems x show ?thesis by simp
  next
    case error
    with Cons.prems x show ?thesis by simp
  next
    case (skip q)
    with Cons.prems x Cons.IH show ?thesis by auto
  next
    case (wait q)
    with Cons.prems x show ?thesis by simp
  next
    case (rejected q r' sends')
    with Cons.prems x Cons.IH show ?thesis by auto
  next
    case (stuck q sends' fev)
    with Cons.prems x nf [OF stuck(5)] show ?thesis by auto
  next
    case (drained q sends' fev c2 recvs')
    with Cons.prems x nf [OF drained(5)] Cons.IH show ?thesis by auto
  qed
qed

lemma main_sends:
  assumes sent: "Tao_codec_send_packet d p r \<in> set (fst (main argv lib))"
  shows "\<exists>f. lib_open_input lib (argv ! 1) = Some f \<and>
             pkt_stream_index p = fst (selected lib f) \<and>
             lib_create_decoder lib (snd (selected lib f)) = Some d"
proof -
  have ns: "Tao_codec_send_packet d p r \<notin> set (scan lib f)" for f
    using scan_events [of "Tao_codec_send_packet d p r" lib f] by (auto simp: scan_event_def)
  show ?thesis
  proof (cases rule: main_cases [of argv lib])
    case usage
    with sent show ?thesis by simp
  next
    case no_input
    with sent show ?thesis by (simp add: startup_def)
  next
    case (no_audio f)
    with sent ns show ?thesis by (simp add: startup_def)
  next
    case (no_decoder f a cid)
    with sent ns show ?thesis by (simp add: startup_def create_def)
  next
    case (not_opened f a cid d' ret)
    with sent ns show ?thesis by (simp add: startup_def create_def)
  next
    case (running f a cid d' t)
    with sent ns have "Tao_codec_send_packet d p r \<in> set (fst (run_loop lib f d' a))"
      by (simp add: startup_def create_def)
    then have "d = d' \<and> pkt_stream_index p = a"
      unfolding run_loop_def by (rule decode_loop_sends)
    with running show ?thesis by simp
  next
    case (finished f a cid d' t c)
    with sent ns have "Tao_codec_send_packet d p r \<in> set (fst (run_loop lib f d' a))"
      by (simp add: startup_def create_def wrapup_def)
    then have "d = d' \<and> pkt_stream_index p = a"
      unfolding run_loop_def by (rule decode_loop_sends)
    with finished show ?thesis by simp
  qed
qed

text \<open>
  Claim C3. Every packet passed to \<open>tao_codec_send_packet\<close> has the stream index of the
  selected audio stream and goes to the decoder created for that stream's codec; a packet
  with another stream index is released and skipped, and the iteration consumes no answer
  of \<open>tao_codec_send_packet\<close>.
\<close>

theorem only_selected_stream_submitted:
  "(\<forall>d p r. Tao_codec_send_packet d p r \<in> set (fst (main argv lib)) \<longrightarrow>
      (\<exists>f. lib_open_input lib (argv ! 1) = Some f \<and>
           pkt_stream_index p = fst (selected lib f) \<and>
           lib_create_decoder lib (snd (selected lib f)) = Some d)) \<and>
   (\<forall>f d a p reads sends recvs c. pkt_stream_index p \<noteq> a \<longrightarrow>
      decode_loop f d a ((TAO_OK, Some p) # reads) sends recvs c =
        ([Tao_format_read_packet f TAO_OK (Some p), Tao_packet_stream_index p,
          Tao_packet_free p] @ fst (decode_loop f d a reads sends recvs c),
         snd (decode_loop f d a reads sends recvs c)))"
proof (intro conjI allI impI)
  fix d p r
  assume "Tao_codec_send_packet d p r \<in> set (fst (main argv lib))"
  then show "\<exists>f. lib_open_input lib (argv ! 1) = Some f \<and>
           pkt_stream_index p = fst (selected lib f) \<and>
           lib_create_decoder lib (snd (selected lib f)) = Some d"
    by (rule main_sends)
next
  fix f d a and p :: TaoPacket and reads sends recvs c
  assume "pkt_stream_index p \<noteq> a"
  then show "decode_loop f d a ((TAO_OK, Some p) # reads) sends recvs c =
        ([Tao_format_read_packet f TAO_OK (Some p), Tao_packet_stream_index p,
          Tao_packet_free p] @ fst (decode_loop f d a reads sends recvs c),
         snd (decode_loop f d a reads sends recvs c))"
    by (rule decode_loop_skip)
qed

theorem only_selected_stream_submitted_witness:
  "Tao_codec_send_packet 9 (demo_packet 3 20 1) TAO_OK \<in> set (fst (main demo_argv demo_lib)) \<and>
   lib_open_input demo_lib (demo_argv ! 1) = Some 7 \<and>
   pkt_stream_index (demo_packet 3 20 1) = fst (selected demo_lib 7) \<and>
   lib_create_decoder demo_lib (snd (selected demo_lib 7)) = Some 9 \<and>
   pkt_stream_index (demo_packet 1 0 0) \<noteq> 1 \<and>
   decode_loop 7 9 1 [(TAO_OK, Some (demo_packet 1 0 0)), (TAO_EOF, None)] [] []
       \<lparr>packet_count = 0, frame_count = 0, total_samples = 0\<rparr> =
     ([Tao_format_read_packet 7 TAO_OK (Some (demo_packet 1 0 0)),
       Tao_packet_stream_index (demo_packet 1 0 0), Tao_packet_free (demo_packet 1 0 0),
       Tao_format_read_packet 7 TAO_EOF None, Printf EndOfFileLine],
      Some \<lparr>packet_count = 0, frame_count = 0, total_samples = 0\<rparr>)"
proof -
  have sent: "Tao_codec_send_packet 9 (demo_packet 3 20 1) TAO_OK
                \<in> set (fst (main demo_argv demo_lib))"
    by (simp add: demo_main demo_loop)
  have other: "pkt_stream_index (demo_packet 1 0 0) \<noteq> 1" by (simp add: demo_packet_def)
  from only_selected_stream_submitted [of demo_argv demo_lib] sent other show ?thesis
    by (auto simp: demo_selected demo_fields demo_argv_def)
qed

subsection \<open>Decoder parameters\<close>

text \<open>
  Claim C10. Whatever the file and the library report, \<open>tao_codec_open_decoder\<close> is only
  ever called with sample rate 44100, 2 channels, a null extra-data pointer and size 0, and
  it is so called on every decoder that \<open>tao_codec_create_decoder\<close> returned.
\<close>

theorem decoder_opened_with_fixed_parameters:
  "(\<forall>d sr ch ex n r. Tao_codec_open_decoder d sr ch ex n r \<in> set (fst (main argv lib)) \<longrightarrow>
      sr = 44100 \<and> ch = 2 \<and> ex = None \<and> n = 0 \<and> r = lib_open_decoder lib d 44100 2 None 0) \<and>
   (\<forall>cid d. Tao_codec_create_decoder cid (Some d) \<in> set (fst (main argv lib)) \<longrightarrow>
      Tao_codec_open_decoder d 44100 2 None 0 (lib_open_decoder lib d 44100 2 None 0)
        \<in> set (fst (main argv lib)))"
proof -
  have ns: "Tao_codec_open_decoder d sr ch ex n r \<notin> set (scan lib f)" for d sr ch ex n r f
    using scan_events [of "Tao_codec_open_decoder d sr ch ex n r" lib f]
    by (auto simp: scan_event_def)
  have nl: "Tao_codec_open_decoder d sr ch ex n r \<notin> set t"
    if "run_loop lib f d' a = (t, res)" for d sr ch ex n r f d' a t res
    using decode_loop_events [of "Tao_codec_open_decoder d sr ch ex n r" f d' a
        "lib_read_packet lib" "lib_send_packet lib" "lib_receive_frame lib"
        "\<lparr>packet_count = 0, frame_count = 0, total_samples = 0\<rparr>"] that
    by (auto simp: run_loop_def loop_event_def frame_event_def)
  have cs: "Tao_codec_create_decoder cid rd \<notin> set (scan lib f)" for cid rd f
    using scan_events [of "Tao_codec_create_decoder cid rd" lib f]
    by (auto simp: scan_event_def)
  have cl: "Tao_codec_create_decoder cid rd \<notin> set t"
    if "run_loop lib f d' a = (t, res)" for cid rd f d' a t res
    using decode_loop_events [of "Tao_codec_create_decoder cid rd" f d' a
        "lib_read_packet lib" "lib_send_packet lib" "lib_receive_frame lib"
        "\<lparr>packet_count = 0, frame_count = 0, total_samples = 0\<rparr>"] that
    by (auto simp: run_loop_def loop_event_def frame_event_def)
  show ?thesis
  proof (cases rule: main_cases [of argv lib])
    case usage
    then show ?thesis by simp
  next
    case no_input
    then show ?thesis by (simp add: startup_def)
  next
    case (no_audio f)
    then show ?thesis using ns cs by (simp add: startup_def)
  next
    case (no_decoder f a cid)
    then show ?thesis using ns cs by (simp add: startup_def create_def)
  next
    case (not_opened f a cid d ret)
    then show ?thesis using ns cs by (auto simp: startup_def create_def)
  next
    case (running f a cid d t)
    then show ?thesis using ns cs nl [OF running(7)] cl [OF running(7)]
      by (auto simp: startup_def create_def)
  next
    case (finished f a cid d t c)
    then show ?thesis using ns cs nl [OF finished(7)] cl [OF finished(7)]
      by (auto simp: startup_def create_def wrapup_def)
  qed
qed

theorem decoder_opened_with_fixed_parameters_witness:
  "Tao_codec_create_decoder 101 (Some 9) \<in> set (fst (main demo_argv demo_lib)) \<and>
   Tao_codec_open_decoder 9 44100 2 None 0 TAO_OK \<in> set (fst (main demo_argv demo_lib)) \<and>
   frm_sample_rate demo_frame = 48000"
proof -
  have "Tao_codec_create_decoder 101 (Some 9) \<in> set (fst (main demo_argv demo_lib))"
    by (simp add: demo_main create_def demo_fields)
  with decoder_opened_with_fixed_parameters [of demo_argv demo_lib] show ?thesis
    by (auto simp: demo_fields demo_frame_def)
qed

subsection \<open>Timestamps\<close>

lemma retime_event_simps:
  "retime_event g (Tao_format_read_packet f ret pkt) =
     Tao_format_read_packet f ret (map_option (retime g) pkt)"
  "retime_event g (Tao_codec_send_packet d p r) = Tao_codec_send_packet d (retime g p) r"
  "retime_event g (Tao_packet_stream_index p) = Tao_packet_stream_index (retime g p)"
  "retime_event g (Tao_packet_free p) = Tao_packet_free (retime g p)"
  "retime_event g (Printf x) = Printf x"
  "retime_event g (Fprintf_stderr x) = Fprintf_stderr x"
  by (simp_all add: retime_event_def)

lemma retime_event_frame: "frame_event e \<Longrightarrow> retime_event g e = e"
  by (cases e) (auto simp: frame_event_def retime_event_def)

lemma retime_event_outside: "outside_event e \<Longrightarrow> retime_event g e = e"
  by (cases e) (auto simp: outside_event_def scan_event_def retime_event_def)

lemma map_retime_frame_events:
  "receive_loop d recvs c = (fev, res) \<Longrightarrow> map (retime_event g) fev = fev"
  using receive_loop_frame_event [of d recvs c fev res]
  by (intro map_idI) (simp add: retime_event_frame)

lemma printed_map_retime: "printed (map (retime_event g) t) = printed t"
proof (induction t)
  case Nil
  show ?case by (simp add: printed_def)
next
  case (Cons e t)
  then show ?case by (cases e) (simp_all add: printed_def retime_event_def)
qed

lemma pts_calls_append: "pts_calls (xs @ ys) = pts_calls xs @ pts_calls ys"
  by (simp add: pts_calls_def map_filter_def)

lemma pts_calls_none:
  "(\<And>e. e \<in> set t \<Longrightarrow> loop_event e \<or> outside_event e) \<Longrightarrow> pts_calls t = []"
proof (induction t)
  case Nil
  show ?case by (simp add: pts_calls_def map_filter_simps)
next
  case (Cons e t)
  have "loop_event e \<or> outside_event e" using Cons.prems by simp
  then have "(case e of Tao_packet_pts p \<Rightarrow> Some p | _ \<Rightarrow> None) = None"
    by (cases e)
       (auto simp: loop_event_def outside_event_def frame_event_def scan_event_def)
  then show ?case using Cons by (simp add: pts_calls_def map_filter_simps)
qed

lemma decode_loop_retime:
  "decode_loop f d a (map (\<lambda>(ret, pkt). (ret, map_option (retime g) pkt)) reads) sends recvs c =
     (map (retime_event g) (fst (decode_loop f d a reads sends recvs c)),
      snd (decode_loop f d a reads sends recvs c))"
proof (induction reads arbitrary: sends recvs c)
  case Nil
  show ?case by simp
next
  case (Cons x reads)
  obtain ret pkt where x: "x = (ret, pkt)" by (cases x)
  have idx: "pkt_stream_index (retime g q) = pkt_stream_index q" for q
    by (simp add: retime_def)
  show ?case
  proof (cases rule: decode_loop_cases [of ret f d a pkt reads sends recvs c])
    case eof
    then show ?thesis by (simp add: x retime_event_simps)
  next
    case error
    then show ?thesis unfolding x
      by (auto simp: retime_event_simps)
  next
    case (skip q)
    then show ?thesis unfolding x
      by (simp add: decode_loop_skip idx Cons.IH retime_event_simps del: decode_loop.simps)
  next
    case (wait q)
    then show ?thesis unfolding x
      by (simp add: decode_loop_wait idx retime_event_simps del: decode_loop.simps)
  next
    case (rejected q r sends')
    then show ?thesis unfolding x
      by (simp add: decode_loop_rejected idx Cons.IH retime_event_simps del: decode_loop.simps)
  next
    case (stuck q sends' fev)
    then show ?thesis unfolding x
      by (simp add: decode_loop_accepted idx retime_event_simps map_retime_frame_events
            del: decode_loop.simps)
  next
    case (drained q sends' fev c2 recvs')
    then show ?thesis unfolding x
      by (simp add: decode_loop_accepted idx Cons.IH retime_event_simps map_retime_frame_events
            del: decode_loop.simps)
  qed
qed

lemma find_audio_stream_cong:
  "lib_stream_media_type lib' = lib_stream_media_type lib \<Longrightarrow>
   lib_stream_codec_id lib' = lib_stream_codec_id lib \<Longrightarrow>
   find_audio_stream lib' f n i sel = find_audio_stream lib f n i sel"
proof (induction lib f n i sel rule: find_audio_stream.induct)
  case (1 lib f n i a cid)
  show ?case
  proof (cases "i < n")
    case True
    with 1 show ?thesis
      by (simp add: find_audio_stream.simps [of lib' f n i] find_audio_stream.simps [of lib f n i]
            Let_def)
  next
    case False
    then show ?thesis
      by (simp add: find_audio_stream.simps [of lib' f n i] find_audio_stream.simps [of lib f n i])
  qed
qed

lemma retime_lib_fields:
  "lib_version (retime_lib g lib) = lib_version lib"
  "lib_build_info (retime_lib g lib) = lib_build_info lib"
  "lib_open_input (retime_lib g lib) = lib_open_input lib"
  "lib_stream_count (retime_lib g lib) = lib_stream_count lib"
  "lib_stream_media_type (retime_lib g lib) = lib_stream_media_type lib"
  "lib_stream_codec_id (retime_lib g lib) = lib_stream_codec_id lib"
  "lib_create_decoder (retime_lib g lib) = lib_create_decoder lib"
  "lib_open_decoder (retime_lib g lib) = lib_open_decoder lib"
  "lib_send_packet (retime_lib g lib) = lib_send_packet lib"
  "lib_receive_frame (retime_lib g lib) = lib_receive_frame lib"
  "lib_read_packet (retime_lib g lib) =
     map (\<lambda>(ret, pkt). (ret, map_option (retime g) pkt)) (lib_read_packet lib)"
  by (simp_all add: retime_lib_def)

lemma retime_lib_pieces:
  "startup n (retime_lib g lib) = startup n lib"
  "scan (retime_lib g lib) f = scan lib f"
  "selected (retime_lib g lib) f = selected lib f"
  "create (retime_lib g lib) a cid = create lib a cid"
  "run_loop (retime_lib g lib) f d a =
     (map (retime_event g) (fst (run_loop lib f d a)), snd (run_loop lib f d a))"
  by (simp_all add: startup_def scan_def selected_def create_def run_loop_def retime_lib_fields
        find_audio_stream_cong [of "retime_lib g lib" lib] decode_loop_retime)

lemma map_retime_outside: "(\<And>e. e \<in> set t \<Longrightarrow> outside_event e) \<Longrightarrow> map (retime_event g) t = t"
  by (intro map_idI) (simp add: retime_event_outside)

lemma main_eq:
  "main argv lib =
     (if length argv < 2 then
        ([Printf (Usage (argv_at argv 0)), Printf Blank, Printf (Example (argv_at argv 0))], Some 1)
      else case lib_open_input lib (argv ! 1) of
        None \<Rightarrow> (startup (argv ! 1) lib @ [Fprintf_stderr ErrOpenInput, Tao_shutdown], Some 1)
      | Some f \<Rightarrow>
          (case selected lib f of
             (a, cid) \<Rightarrow>
               if a < 0 then
                 (startup (argv ! 1) lib @ scan lib f @
                  [Fprintf_stderr ErrNoAudioStream, Tao_format_close f, Tao_shutdown], Some 1)
               else
                 (case lib_create_decoder lib cid of
                    None \<Rightarrow>
                      (startup (argv ! 1) lib @ scan lib f @ create lib a cid @
                       [Fprintf_stderr ErrCreateDecoder, Tao_format_close f, Tao_shutdown], Some 1)
                  | Some d \<Rightarrow>
                      if lib_open_decoder lib d 44100 2 None 0 \<noteq> TAO_OK then
                        (startup (argv ! 1) lib @ scan lib f @ create lib a cid @
                         [Tao_codec_open_decoder d 44100 2 None 0
                            (lib_open_decoder lib d 44100 2 None 0),
                          Fprintf_stderr ErrOpenDecoder, Tao_codec_close d, Tao_format_close f,
                          Tao_shutdown], Some 1)
                      else
                        (case snd (run_loop lib f d a) of
                           None \<Rightarrow>
                             (startup (argv ! 1) lib @ scan lib f @ create lib a cid @
                              [Tao_codec_open_decoder d 44100 2 None 0 TAO_OK] @
                              fst (run_loop lib f d a), None)
                         | Some c \<Rightarrow>
                             (startup (argv ! 1) lib @ scan lib f @ create lib a cid @
                              [Tao_codec_open_decoder d 44100 2 None 0 TAO_OK] @
                              fst (run_loop lib f d a) @ wrapup c d f, Some 0)))))"
  by (cases rule: main_cases [of argv lib]) (simp_all add: case_prod_beta)

lemma map_retime_pieces:
  "map (retime_event g) (startup n lib) = startup n lib"
  "map (retime_event g) (scan lib f) = scan lib f"
  "map (retime_event g) (create lib a cid) = create lib a cid"
  "map (retime_event g) (wrapup c d f) = wrapup c d f"
  using startup_events [of _ n lib] scan_events [of _ lib f] create_events [of _ lib a cid]
    wrapup_events [of _ c d f] scan_event_outside
  by (auto intro!: map_retime_outside)

lemma retime_event_exit:
  "retime_event g Tao_shutdown = Tao_shutdown"
  "retime_event g (Tao_format_close f) = Tao_format_close f"
  "retime_event g (Tao_codec_close d) = Tao_codec_close d"
  "retime_event g (Tao_codec_open_decoder d sr ch ex n r) = Tao_codec_open_decoder d sr ch ex n r"
  by (simp_all add: retime_event_def)

lemma main_retime:
  "main argv (retime_lib g lib) =
     (map (retime_event g) (fst (main argv lib)), snd (main argv lib))"
  by (simp add: main_eq [of argv "retime_lib g lib"] main_eq [of argv lib] retime_lib_fields
        retime_lib_pieces map_retime_pieces retime_event_simps retime_event_exit
        split: option.splits prod.splits)

lemma main_events: "e \<in> set (fst (main argv lib)) \<Longrightarrow> loop_event e \<or> outside_event e"
proof (cases rule: main_shape [of argv lib])
  case direct
  assume "e \<in> set (fst (main argv lib))"
  with direct show ?thesis by simp
next
  case (looped pre f d a post)
  assume "e \<in> set (fst (main argv lib))"
  with looped(1-3) decode_loop_events [of e f d a "lib_read_packet lib" "lib_send_packet lib"
      "lib_receive_frame lib" "\<lparr>packet_count = 0, frame_count = 0, total_samples = 0\<rparr>"]
  show ?thesis by (auto simp: run_loop_def)
qed

text \<open>
  Claim C8 as stated says that \<open>tao_packet_pts\<close> is invoked on packets in every
  execution. In the sample run three packets are read and \<open>tao_packet_pts\<close> is called on
  none of them.
\<close>

theorem packet_pts_called_counterexample:
  "packets_read (fst (main demo_argv demo_lib)) =
     [demo_packet 1 0 0, demo_packet 2 10 1, demo_packet 3 20 1] \<and>
   pts_calls (fst (main demo_argv demo_lib)) = []"
  by (simp add: demo_main demo_loop demo_scan startup_def create_def wrapup_def
        packets_read_def pts_calls_def map_filter_simps)

text \<open>
  Claim C8, amended. The program reads no packet timestamp and shows none:
  \<open>tao_packet_pts\<close> is declared but never called, and what the program prints and
  returns is the same whatever the presentation timestamps of the packets are. The frame
  line carries the frame number, the sample count and the sample rate only.
\<close>

theorem timestamps_neither_read_nor_printed:
  "pts_calls (fst (main argv lib)) = [] \<and>
   printed (fst (main argv (retime_lib g lib))) = printed (fst (main argv lib)) \<and>
   snd (main argv (retime_lib g lib)) = snd (main argv lib)"
  using pts_calls_none [of "fst (main argv lib)"] main_events [of _ argv lib]
  by (simp add: main_retime printed_map_retime)

theorem timestamps_neither_read_nor_printed_witness:
  "retime_lib (\<lambda>p. 0) demo_lib \<noteq> demo_lib \<and>
   pts_calls (fst (main demo_argv demo_lib)) = [] \<and>
   printed (fst (main demo_argv (retime_lib (\<lambda>p. 0) demo_lib))) =
     printed (fst (main demo_argv demo_lib)) \<and>
   snd (main demo_argv (retime_lib (\<lambda>p. 0) demo_lib)) = Some 0"
proof -
  have "lib_read_packet (retime_lib (\<lambda>p. 0) demo_lib) \<noteq> lib_read_packet demo_lib"
    by (simp add: retime_lib_def demo_lib_def retime_def demo_packet_def)
  then have "retime_lib (\<lambda>p. 0) demo_lib \<noteq> demo_lib" by auto
  with timestamps_neither_read_nor_printed [of demo_argv demo_lib "\<lambda>p. 0"] demo_status
  show ?thesis by simp
qed

subsection \<open>End of stream in the demuxer\<close>

lemma read_packets_eq:
  "read_packets n ctx =
     map result_of (take n (drop (cursor ctx) (container ctx))) @
     replicate (n - (length (container ctx) - cursor ctx)) EndOfStream"
proof (induction n arbitrary: ctx)
  case 0
  show ?case by simp
next
  case (Suc n)
  show ?case
  proof (cases "cursor ctx < length (container ctx)")
    case True
    then have d: "drop (cursor ctx) (container ctx) =
                    container ctx ! cursor ctx # drop (Suc (cursor ctx)) (container ctx)"
      by (simp add: Cons_nth_drop_Suc)
    have "Suc n - (length (container ctx) - cursor ctx) = n - (length (container ctx) - Suc (cursor ctx))"
      using True by simp
    with True show ?thesis
      by (simp add: read_packet_def Suc.IH d result_of_def)
  next
    case False
    then have "read_packets n ctx = replicate n EndOfStream"
      by (simp add: Suc.IH)
    with False show ?thesis
      by (simp add: read_packet_def)
  qed
qed

lemma result_of_not_eos: "result_of x \<noteq> EndOfStream"
  by (cases x) (simp_all add: result_of_def)

lemma delivered_results: "delivered (map result_of xs) = stored_packets xs"
proof (induction xs)
  case Nil
  show ?case by (simp add: delivered_def stored_packets_def map_filter_simps)
next
  case (Cons x xs)
  then show ?case
    by (cases x) (simp_all add: delivered_def stored_packets_def map_filter_simps result_of_def)
qed

lemma delivered_append: "delivered (xs @ ys) = delivered xs @ delivered ys"
  by (simp add: delivered_def map_filter_def)

lemma delivered_eos: "delivered (replicate k EndOfStream) = []"
  by (induction k) (simp_all add: delivered_def map_filter_simps)

text \<open>
  Claim C6. If one of \<open>n\<close> successive reads on a FormatContext signals EndOfStream,
  then the reads before it have delivered every packet the container holds from the read
  cursor on, and every later read signals EndOfStream again.
\<close>

theorem end_of_stream_after_all_packets:
  assumes "i < n" and "read_packets n ctx ! i = EndOfStream"
  shows "delivered (take i (read_packets n ctx)) =
           stored_packets (drop (cursor ctx) (container ctx)) \<and>
         (\<forall>j. i \<le> j \<and> j < n \<longrightarrow> read_packets n ctx ! j = EndOfStream)"
proof -
  let ?rest = "drop (cursor ctx) (container ctx)"
  let ?m = "length (container ctx) - cursor ctx"
  have len: "length ?rest = ?m" by simp
  have ge: "?m \<le> i"
  proof (rule ccontr)
    assume "\<not> ?m \<le> i"
    then have "i < length (map result_of (take n ?rest))" using assms(1) by simp
    then have "read_packets n ctx ! i = result_of (take n ?rest ! i)"
      by (simp add: read_packets_eq nth_append del: length_take length_drop)
    with assms(2) result_of_not_eos show False by metis
  qed
  then have tk: "take n ?rest = ?rest" using assms(1) by simp
  have all: "read_packets n ctx = map result_of ?rest @ replicate (n - ?m) EndOfStream"
    by (simp only: read_packets_eq tk)
  have "take i (read_packets n ctx) = map result_of ?rest @ replicate (min (i - ?m) (n - ?m)) EndOfStream"
    using ge by (simp add: all)
  then have first: "delivered (take i (read_packets n ctx)) = stored_packets ?rest"
    by (simp only: delivered_append delivered_results delivered_eos append_Nil2)
  have later: "read_packets n ctx ! j = EndOfStream" if "i \<le> j" "j < n" for j
  proof -
    have "length (map result_of ?rest) \<le> j" using ge that(1) by simp
    then show ?thesis using that(2) ge
      by (simp add: all nth_append)
  qed
  from first later show ?thesis by blast
qed

theorem end_of_stream_after_all_packets_witness:
  "(3::nat) < 5 \<and> read_packets 5 demo_container ! 3 = EndOfStream \<and>
   read_packets 5 demo_container =
     [Packet (demo_packet 1 0 0), ReadError, Packet (demo_packet 2 10 1), EndOfStream, EndOfStream] \<and>
   delivered (take 3 (read_packets 5 demo_container)) = [demo_packet 1 0 0, demo_packet 2 10 1] \<and>
   read_packets 5 demo_container ! 4 = EndOfStream"
proof -
  have rp: "read_packets 5 demo_container =
     [Packet (demo_packet 1 0 0), ReadError, Packet (demo_packet 2 10 1), EndOfStream, EndOfStream]"
    by (simp add: eval_nat_numeral read_packet_def demo_container_def)
  have h1: "(3::nat) < 5" by simp
  have h2: "read_packets 5 demo_container ! 3 = EndOfStream" by (simp add: rp)
  from end_of_stream_after_all_packets [OF h1 h2] rp h1 h2 show ?thesis
    by (simp add: demo_container_def stored_packets_def map_filter_simps)
qed

subsection \<open>The answers a run consumes\<close>

lemma answers_Nil: "reads_of [] = []" "sends_of [] = []" "recvs_of [] = []"
  by (simp_all add: reads_of_def sends_of_def recvs_of_def map_filter_simps)

lemma answers_Cons:
  "reads_of (e # t) =
     (case e of Tao_format_read_packet f ret pkt \<Rightarrow> (ret, pkt) # reads_of t | _ \<Rightarrow> reads_of t)"
  "sends_of (e # t) =
     (case e of Tao_codec_send_packet d p r \<Rightarrow> r # sends_of t | _ \<Rightarrow> sends_of t)"
  "recvs_of (e # t) =
     (case e of Tao_codec_receive_frame d ret frame \<Rightarrow> (ret, frame) # recvs_of t
      | _ \<Rightarrow> recvs_of t)"
  by (cases e; simp add: reads_of_def sends_of_def recvs_of_def map_filter_simps)+

lemma answers_append:
  "reads_of (xs @ ys) = reads_of xs @ reads_of ys"
  "sends_of (xs @ ys) = sends_of xs @ sends_of ys"
  "recvs_of (xs @ ys) = recvs_of xs @ recvs_of ys"
  by (simp_all add: reads_of_def sends_of_def recvs_of_def map_filter_def)

lemma no_answers:
  "(\<And>e. e \<in> set t \<Longrightarrow> outside_event e) \<Longrightarrow>
   reads_of t = [] \<and> sends_of t = [] \<and> recvs_of t = []"
proof (induction t)
  case Nil
  show ?case by (simp add: answers_Nil)
next
  case (Cons e t)
  have "outside_event e" using Cons.prems by simp
  then have "reads_of (e # t) = reads_of t \<and> sends_of (e # t) = sends_of t \<and>
             recvs_of (e # t) = recvs_of t"
    by (cases e) (simp_all add: answers_Cons outside_event_def scan_event_def)
  with Cons show ?case by simp
qed

lemma frame_body_answers:
  "reads_of (fst (frame_body fr c)) = []" "sends_of (fst (frame_body fr c)) = []"
  "recvs_of (fst (frame_body fr c)) = []"
  by (simp_all add: frame_body_def answers_Cons answers_Nil answers_append)

lemma receive_loop_answers:
  "reads_of (fst (receive_loop d recvs c)) = [] \<and>
   sends_of (fst (receive_loop d recvs c)) = [] \<and>
   recvs = recvs_of (fst (receive_loop d recvs c)) @
           (case snd (receive_loop d recvs c) of None \<Rightarrow> [] | Some (c', rest) \<Rightarrow> rest)"
proof (induction recvs arbitrary: c)
  case Nil
  show ?case by (simp add: answers_Nil)
next
  case (Cons x recvs)
  obtain ret frame where x: "x = (ret, frame)" by (cases x)
  show ?case
  proof (cases "drain_stop ret frame")
    case True
    show ?thesis
      by (simp only: x receive_loop_stop [OF True]) (simp add: answers_Cons answers_Nil)
  next
    case False
    then obtain fr where fr: "ret = TAO_OK" "frame = Some fr" using not_drain_stop by blast
    show ?thesis
      using Cons.IH [of "snd (frame_body fr c)"]
      by (simp only: x fr receive_loop_frame)
         (simp add: answers_Cons answers_Nil answers_append frame_body_answers)
  qed
qed

lemma receive_loop_answers_eq:
  assumes "receive_loop d recvs c = (fev, res)"
  shows "reads_of fev = []" "sends_of fev = []"
    "recvs = recvs_of fev @ (case res of None \<Rightarrow> [] | Some (c', rest) \<Rightarrow> rest)"
  using receive_loop_answers [of d recvs c] assms by simp_all

text \<open>The answers in a trace of the packet loop are the first answers of the scripts.\<close>

lemma decode_loop_answers:
  "\<exists>rs ss vs. reads = reads_of (fst (decode_loop f d a reads sends recvs c)) @ rs \<and>
              sends = sends_of (fst (decode_loop f d a reads sends recvs c)) @ ss \<and>
              recvs = recvs_of (fst (decode_loop f d a reads sends recvs c)) @ vs"
proof (induction reads arbitrary: sends recvs c)
  case Nil
  show ?case by (simp add: answers_Nil)
next
  case (Cons x reads)
  obtain ret pkt where x: "x = (ret, pkt)" by (cases x)
  show ?case
  proof (cases rule: decode_loop_cases [of ret f d a pkt reads sends recvs c])
    case eof
    then show ?thesis by (simp add: x answers_Cons answers_Nil)
  next
    case error
    then show ?thesis by (simp add: x answers_Cons answers_Nil)
  next
    case (skip p)
    then show ?thesis using Cons.IH [of sends recvs c]
      by (simp add: x answers_Cons answers_Nil answers_append del: decode_loop.simps)
  next
    case (wait p)
    then show ?thesis by (simp add: x answers_Cons answers_Nil)
  next
    case (rejected p r sends')
    then show ?thesis
      using Cons.IH [of sends' recvs "c\<lparr>packet_count := packet_count c + 1\<rparr>"]
      by (simp add: x answers_Cons answers_Nil answers_append del: decode_loop.simps)
  next
    case (stuck p sends' fev)
    then show ?thesis using receive_loop_answers_eq [OF stuck(5)]
      by (simp add: x answers_Cons answers_Nil answers_append del: decode_loop.simps)
  next
    case (drained p sends' fev c2 recvs')
    then show ?thesis using receive_loop_answers_eq [OF drained(5)] Cons.IH [of sends' recvs' c2]
      by (auto simp: x answers_Cons answers_Nil answers_append simp del: decode_loop.simps)
  qed
qed

lemma main_answers:
  "\<exists>rs ss vs. lib_read_packet lib = reads_of (fst (main argv lib)) @ rs \<and>
              lib_send_packet lib = sends_of (fst (main argv lib)) @ ss \<and>
              lib_receive_frame lib = recvs_of (fst (main argv lib)) @ vs"
proof (cases rule: main_shape [of argv lib])
  case direct
  then show ?thesis using no_answers [of "fst (main argv lib)"] by simp
next
  case (looped pre f d a post)
  from no_answers [of pre] no_answers [of post] looped(2,3)
  have "reads_of (fst (main argv lib)) = reads_of (fst (run_loop lib f d a))"
       "sends_of (fst (main argv lib)) = sends_of (fst (run_loop lib f d a))"
       "recvs_of (fst (main argv lib)) = recvs_of (fst (run_loop lib f d a))"
    by (simp_all add: looped(1) answers_append)
  then show ?thesis
    using decode_loop_answers [of "lib_read_packet lib" f d a "lib_send_packet lib"
        "lib_receive_frame lib" "\<lparr>packet_count = 0, frame_count = 0, total_samples = 0\<rparr>"]
    by (simp add: run_loop_def)
qed

subsection \<open>Where a run waits\<close>

text \<open>
  The invariant rule for the packet loop once more, now also for a run without exit
  status: its monitor state is the one of a pending read, submission or receive call, and
  the script of that call is used up.
\<close>

lemma decode_loop_progress:
  assumes eof: "\<And>s pkt. rdg s \<Longrightarrow>
                  \<exists>s'. run_monitor step s
                         [Tao_format_read_packet f TAO_EOF pkt, Printf EndOfFileLine] = Some s'
                       \<and> fin s'"
    and err: "\<And>s ret pkt. rdg s \<Longrightarrow> ret \<noteq> TAO_EOF \<Longrightarrow> ret \<noteq> TAO_OK \<or> pkt = None \<Longrightarrow>
                \<exists>s'. run_monitor step s
                       [Tao_format_read_packet f ret pkt, Fprintf_stderr (ErrReadPacket ret)]
                       = Some s' \<and> fin s'"
    and skip: "\<And>s p. rdg s \<Longrightarrow> pkt_stream_index p \<noteq> a \<Longrightarrow>
                 \<exists>s'. run_monitor step s
                        [Tao_format_read_packet f TAO_OK (Some p), Tao_packet_stream_index p,
                         Tao_packet_free p] = Some s' \<and> rdg s'"
    and wait: "\<And>s p. rdg s \<Longrightarrow> pkt_stream_index p = a \<Longrightarrow>
                 \<exists>s'. run_monitor step s
                        [Tao_format_read_packet f TAO_OK (Some p), Tao_packet_stream_index p]
                        = Some s' \<and> wtg s'"
    and rejected: "\<And>s p r. rdg s \<Longrightarrow> pkt_stream_index p = a \<Longrightarrow> r \<noteq> TAO_OK \<Longrightarrow>
                 \<exists>s'. run_monitor step s
                        [Tao_format_read_packet f TAO_OK (Some p), Tao_packet_stream_index p,
                         Tao_codec_send_packet d p r, Tao_packet_free p] = Some s' \<and> rdg s'"
    and accepted: "\<And>s p. rdg s \<Longrightarrow> pkt_stream_index p = a \<Longrightarrow>
                 \<exists>s'. run_monitor step s
                        [Tao_format_read_packet f TAO_OK (Some p), Tao_packet_stream_index p,
                         Tao_codec_send_packet d p TAO_OK, Tao_packet_free p] = Some s' \<and> drg s'"
    and stop: "\<And>s ret frame. drg s \<Longrightarrow> drain_stop ret frame \<Longrightarrow>
                 \<exists>s'. step s (Tao_codec_receive_frame d ret frame) = Some s' \<and> rdg s'"
    and frame: "\<And>s fr c. drg s \<Longrightarrow>
                 \<exists>s'. run_monitor step s
                        (Tao_codec_receive_frame d TAO_OK (Some fr) # fst (frame_body fr c) @
                         [Tao_frame_free fr]) = Some s' \<and> drg s'"
    and start: "rdg s"
  shows "\<exists>s'. run_monitor step s (fst (decode_loop f d a reads sends recvs c)) = Some s' \<and>
           (case snd (decode_loop f d a reads sends recvs c) of
              Some c' \<Rightarrow> fin s'
            | None \<Rightarrow> pending_at rdg wtg drg s' (fst (decode_loop f d a reads sends recvs c))
                        reads sends recvs)"
  using start
proof (induction reads arbitrary: s sends recvs c)
  case Nil
  then show ?case by (simp add: pending_at_def answers_Nil)
next
  case (Cons x reads)
  obtain ret pkt where x: "x = (ret, pkt)" by (cases x)
  have cont:
    "\<exists>s'. run_monitor step s (ev @ fst r) = Some s' \<and>
        (case snd r of Some c' \<Rightarrow> fin s'
         | None \<Rightarrow> pending_at rdg wtg drg s' (ev @ fst r)
                    (reads_of ev @ rs) (sends_of ev @ ss) (recvs_of ev @ vs))"
    if "run_monitor step s ev = Some s1"
      and "\<exists>s'. run_monitor step s1 (fst r) = Some s' \<and>
              (case snd r of Some c' \<Rightarrow> fin s'
               | None \<Rightarrow> pending_at rdg wtg drg s' (fst r) rs ss vs)"
    for ev s1 rs ss vs and r :: "event list \<times> counters option"
    using that
    by (auto simp: run_monitor_append answers_append pending_at_def split: option.splits)
  show ?case
  proof (cases rule: decode_loop_cases [of ret f d a pkt reads sends recvs c])
    case eof
    with assms(1) [OF Cons.prems, of pkt] show ?thesis by (auto simp: x)
  next
    case error
    with assms(2) [OF Cons.prems error(1,2)] show ?thesis by (auto simp: x)
  next
    case (skip p)
    have x': "x = (TAO_OK, Some p)" using x skip(1,2) by simp
    note eq = skip(4) [unfolded skip(1,2)]
    from assms(3) [OF Cons.prems skip(3)] obtain s1 where
      s1: "run_monitor step s
             [Tao_format_read_packet f TAO_OK (Some p), Tao_packet_stream_index p,
              Tao_packet_free p] = Some s1" "rdg s1"
      by blast
    have ans:
      "reads_of [Tao_format_read_packet f TAO_OK (Some p), Tao_packet_stream_index p,
                 Tao_packet_free p] @ reads = (TAO_OK, Some p) # reads"
      "sends_of [Tao_format_read_packet f TAO_OK (Some p), Tao_packet_stream_index p,
                 Tao_packet_free p] @ sends = sends"
      "recvs_of [Tao_format_read_packet f TAO_OK (Some p), Tao_packet_stream_index p,
                 Tao_packet_free p] @ recvs = recvs"
      by (simp_all add: answers_Cons answers_Nil)
    show ?thesis unfolding x' eq fst_conv snd_conv
      by (rule cont [OF s1(1) Cons.IH [OF s1(2), of sends recvs c], unfolded ans])
  next
    case (wait p)
    have x': "x = (TAO_OK, Some p)" using x wait(1,2) by simp
    note eq = wait(5) [unfolded wait(1,2)]
    from assms(4) [OF Cons.prems wait(3)] obtain s1 where
      s1: "run_monitor step s
             [Tao_format_read_packet f TAO_OK (Some p), Tao_packet_stream_index p] = Some s1"
          "wtg s1"
      by blast
    have "sends_of [Tao_format_read_packet f TAO_OK (Some p), Tao_packet_stream_index p] = sends"
      using wait(4) by (simp add: answers_Cons answers_Nil)
    with s1 show ?thesis unfolding x' eq fst_conv snd_conv
      by (simp add: pending_at_def del: run_monitor.simps)
  next
    case (rejected p r sends')
    have x': "x = (TAO_OK, Some p)" using x rejected(1,2) by simp
    note eq = rejected(6) [unfolded rejected(1,2,4)]
    from assms(5) [OF Cons.prems rejected(3,5)] obtain s1 where
      s1: "run_monitor step s
             [Tao_format_read_packet f TAO_OK (Some p), Tao_packet_stream_index p,
              Tao_codec_send_packet d p r, Tao_packet_free p] = Some s1" "rdg s1"
      by blast
    have ans:
      "reads_of [Tao_format_read_packet f TAO_OK (Some p), Tao_packet_stream_index p,
                 Tao_codec_send_packet d p r, Tao_packet_free p] @ reads
         = (TAO_OK, Some p) # reads"
      "sends_of [Tao_format_read_packet f TAO_OK (Some p), Tao_packet_stream_index p,
                 Tao_codec_send_packet d p r, Tao_packet_free p] @ sends' = r # sends'"
      "recvs_of [Tao_format_read_packet f TAO_OK (Some p), Tao_packet_stream_index p,
                 Tao_codec_send_packet d p r, Tao_packet_free p] @ recvs = recvs"
      by (simp_all add: answers_Cons answers_Nil)
    show ?thesis unfolding x' eq rejected(4) fst_conv snd_conv
      by (rule cont [OF s1(1) Cons.IH [OF s1(2),
            of sends' recvs "c\<lparr>packet_count := packet_count c + 1\<rparr>"], unfolded ans])
  next
    case (stuck p sends' fev)
    have x': "x = (TAO_OK, Some p)" using x stuck(1,2) by simp
    note eq = stuck(6) [unfolded stuck(1,2)]
    from assms(6) [OF Cons.prems stuck(3)] obtain s1 where
      s1: "run_monitor step s
             [Tao_format_read_packet f TAO_OK (Some p), Tao_packet_stream_index p,
              Tao_codec_send_packet d p TAO_OK, Tao_packet_free p] = Some s1" "drg s1"
      by blast
    from receive_loop_monitor [of drg step d rdg s1 recvs
        "c\<lparr>packet_count := packet_count c + 1\<rparr>", OF stop frame s1(2)] stuck(5)
    obtain s2 where s2: "run_monitor step s1 fev = Some s2" "drg s2" by auto
    have run: "run_monitor step s
            ([Tao_format_read_packet f TAO_OK (Some p), Tao_packet_stream_index p,
              Tao_codec_send_packet d p TAO_OK, Tao_packet_free p] @ fev) = Some s2"
      using s1(1) s2(1) by (simp add: run_monitor_append del: run_monitor.simps append.simps)
    have "recvs_of
            ([Tao_format_read_packet f TAO_OK (Some p), Tao_packet_stream_index p,
              Tao_codec_send_packet d p TAO_OK, Tao_packet_free p] @ fev) = recvs"
      using receive_loop_answers_eq [OF stuck(5)]
      by (simp add: answers_append answers_Cons answers_Nil)
    with run s2(2) show ?thesis unfolding x' eq fst_conv snd_conv
      by (simp add: pending_at_def del: run_monitor.simps append.simps)
  next
    case (drained p sends' fev c2 recvs')
    have x': "x = (TAO_OK, Some p)" using x drained(1,2) by simp
    note eq = drained(6) [unfolded drained(1,2,4)]
    from assms(6) [OF Cons.prems drained(3)] obtain s1 where
      s1: "run_monitor step s
             [Tao_format_read_packet f TAO_OK (Some p), Tao_packet_stream_index p,
              Tao_codec_send_packet d p TAO_OK, Tao_packet_free p] = Some s1" "drg s1"
      by blast
    from receive_loop_monitor [of drg step d rdg s1 recvs
        "c\<lparr>packet_count := packet_count c + 1\<rparr>", OF stop frame s1(2)] drained(5)
    obtain s2 where s2: "run_monitor step s1 fev = Some s2" "rdg s2" by auto
    have both: "run_monitor step s
            ([Tao_format_read_packet f TAO_OK (Some p), Tao_packet_stream_index p,
              Tao_codec_send_packet d p TAO_OK, Tao_packet_free p] @ fev) = Some s2"
      using s1(1) s2(1) by (simp add: run_monitor_append del: run_monitor.simps append.simps)
    have ans:
      "reads_of ([Tao_format_read_packet f TAO_OK (Some p), Tao_packet_stream_index p,
                  Tao_codec_send_packet d p TAO_OK, Tao_packet_free p] @ fev) @ reads
         = (TAO_OK, Some p) # reads"
      "sends_of ([Tao_format_read_packet f TAO_OK (Some p), Tao_packet_stream_index p,
                  Tao_codec_send_packet d p TAO_OK, Tao_packet_free p] @ fev) @ sends'
         = TAO_OK # sends'"
      "recvs_of ([Tao_format_read_packet f TAO_OK (Some p), Tao_packet_stream_index p,
                  Tao_codec_send_packet d p TAO_OK, Tao_packet_free p] @ fev) @ recvs'
         = recvs"
      using receive_loop_answers_eq [OF drained(5)]
      by (simp_all add: answers_append answers_Cons answers_Nil)
    show ?thesis unfolding x' eq drained(4) fst_conv snd_conv
      by (rule cont [OF both Cons.IH [OF s2(2), of sends' recvs' c2],
            unfolded ans append_assoc])
  qed
qed

text \<open>
  The same for \<open>main\<close>, for a monitor that ignores the events outside the packet loop
  in its initial state and in the states \<open>fin\<close> in which the loop can be left. A run that
  returns 1 has not entered the loop; a run that returns 0 has left it.
\<close>

lemma main_progress:
  assumes outside0: "\<And>e. outside_event e \<Longrightarrow> step s0 e = Some s0"
    and outside: "\<And>e s. outside_event e \<Longrightarrow> fin s \<Longrightarrow> step s e = Some s"
    and loop: "\<And>f d a.
        \<exists>s'. run_monitor step s0 (fst (run_loop lib f d a)) = Some s' \<and>
          (case snd (run_loop lib f d a) of
             Some c' \<Rightarrow> fin s'
           | None \<Rightarrow> pending_at rdg wtg drg s' (fst (run_loop lib f d a))
                       (lib_read_packet lib) (lib_send_packet lib) (lib_receive_frame lib))"
  shows "\<exists>s'. run_monitor step s0 (fst (main argv lib)) = Some s' \<and>
           (case snd (main argv lib) of
              None \<Rightarrow> pending_at rdg wtg drg s' (fst (main argv lib))
                        (lib_read_packet lib) (lib_send_packet lib) (lib_receive_frame lib)
            | Some rc \<Rightarrow> (rc = 1 \<and> s' = s0) \<or> (rc = 0 \<and> fin s'))"
proof (cases rule: main_shape [of argv lib])
  case direct
  then have "run_monitor step s0 (fst (main argv lib)) = Some s0"
    using outside0 by (intro run_monitor_neutral) auto
  with direct(2) show ?thesis by simp
next
  case (looped pre f d a post)
  have pre: "run_monitor step s0 pre = Some s0"
    using looped(2) outside0 by (intro run_monitor_neutral) auto
  from loop [of f d a] obtain s1 where
    s1: "run_monitor step s0 (fst (run_loop lib f d a)) = Some s1"
    and res: "case snd (run_loop lib f d a) of
                Some c' \<Rightarrow> fin s1
              | None \<Rightarrow> pending_at rdg wtg drg s1 (fst (run_loop lib f d a))
                          (lib_read_packet lib) (lib_send_packet lib) (lib_receive_frame lib)"
    by blast
  show ?thesis
  proof (cases "snd (run_loop lib f d a)")
    case None
    with looped(4) have post: "post = []" and st: "snd (main argv lib) = None" by simp_all
    have "reads_of (fst (main argv lib)) = reads_of (fst (run_loop lib f d a))"
         "sends_of (fst (main argv lib)) = sends_of (fst (run_loop lib f d a))"
         "recvs_of (fst (main argv lib)) = recvs_of (fst (run_loop lib f d a))"
      using no_answers [of pre] looped(2)
      by (simp_all add: looped(1) post answers_append)
    moreover have "run_monitor step s0 (fst (main argv lib)) = Some s1"
      using pre s1 by (simp add: looped(1) post run_monitor_append)
    ultimately show ?thesis using res None st by (simp add: pending_at_def)
  next
    case (Some c')
    with res have "fin s1" by simp
    then have "run_monitor step s1 post = Some s1"
      using looped(3) outside by (intro run_monitor_neutral) auto
    then have "run_monitor step s0 (fst (main argv lib)) = Some s1"
      using pre s1 by (simp add: looped(1) run_monitor_append)
    moreover have "snd (main argv lib) = Some 0" using looped(5) Some by simp
    ultimately show ?thesis using \<open>fin s1\<close> by simp
  qed
qed

subsection \<open>The other sample runs\<close>

lemma scripted_main:
  "main demo_argv (demo_lib\<lparr>lib_read_packet := rs, lib_send_packet := ss,
                            lib_receive_frame := vs\<rparr>) =
     (startup ''in.wav'' demo_lib @ scan demo_lib 7 @ create demo_lib 1 101 @
      [Tao_codec_open_decoder 9 44100 2 None 0 TAO_OK] @
      fst (decode_loop 7 9 1 rs ss vs \<lparr>packet_count = 0, frame_count = 0, total_samples = 0\<rparr>) @
      (case snd (decode_loop 7 9 1 rs ss vs
                   \<lparr>packet_count = 0, frame_count = 0, total_samples = 0\<rparr>) of
         None \<Rightarrow> [] | Some c \<Rightarrow> wrapup c 9 7),
      map_option (\<lambda>c. 0)
        (snd (decode_loop 7 9 1 rs ss vs \<lparr>packet_count = 0, frame_count = 0, total_samples = 0\<rparr>)))"
proof -
  let ?L = "demo_lib\<lparr>lib_read_packet := rs, lib_send_packet := ss, lib_receive_frame := vs\<rparr>"
  have fa: "find_audio_stream ?L 7 2 0 (- 1, - 1) = find_audio_stream demo_lib 7 2 0 (- 1, - 1)"
    by (rule find_audio_stream_cong) simp_all
  show ?thesis
    by (simp add: main_def demo_argv_def demo_fields fa demo_find Let_def startup_def scan_def
          create_def wrapup_def split: prod.splits option.splits)
qed

lemma failing_loop:
  "decode_loop 7 9 1
     [(TAO_OK, Some (demo_packet 2 10 1)), (TAO_OK, Some (demo_packet 3 20 1)), (TAO_ERROR, None)]
     [TAO_OK, TAO_OK]
     [(TAO_OK, Some demo_video_frame), (TAO_OK, Some demo_frame), (TAO_NEED_MORE_DATA, None),
      (TAO_OK, None)]
     \<lparr>packet_count = 0, frame_count = 0, total_samples = 0\<rparr> =
   ([Tao_format_read_packet 7 TAO_OK (Some (demo_packet 2 10 1)),
     Tao_packet_stream_index (demo_packet 2 10 1),
     Tao_codec_send_packet 9 (demo_packet 2 10 1) TAO_OK,
     Tao_packet_free (demo_packet 2 10 1),
     Tao_codec_receive_frame 9 TAO_OK (Some demo_video_frame),
     Tao_frame_is_audio demo_video_frame, Tao_frame_free demo_video_frame,
     Tao_codec_receive_frame 9 TAO_OK (Some demo_frame),
     Tao_frame_is_audio demo_frame, Tao_frame_nb_samples demo_frame,
     Tao_frame_sample_rate demo_frame, Printf (FrameLine 1 1024 48000),
     Tao_frame_free demo_frame,
     Tao_codec_receive_frame 9 TAO_NEED_MORE_DATA None,
     Tao_format_read_packet 7 TAO_OK (Some (demo_packet 3 20 1)),
     Tao_packet_stream_index (demo_packet 3 20 1),
     Tao_codec_send_packet 9 (demo_packet 3 20 1) TAO_OK,
     Tao_packet_free (demo_packet 3 20 1),
     Tao_codec_receive_frame 9 TAO_OK None,
     Tao_format_read_packet 7 TAO_ERROR None, Fprintf_stderr (ErrReadPacket TAO_ERROR)],
    Some \<lparr>packet_count = 2, frame_count = 1, total_samples = 1024\<rparr>)"
  by (simp add: Let_def status_distinct demo_packet_def demo_frame_def demo_video_frame_def)

lemma failing_main:
  "main demo_argv failing_lib =
     (startup ''in.wav'' demo_lib @ scan demo_lib 7 @ create demo_lib 1 101 @
      [Tao_codec_open_decoder 9 44100 2 None 0 TAO_OK] @
      [Tao_format_read_packet 7 TAO_OK (Some (demo_packet 2 10 1)),
       Tao_packet_stream_index (demo_packet 2 10 1),
       Tao_codec_send_packet 9 (demo_packet 2 10 1) TAO_OK,
       Tao_packet_free (demo_packet 2 10 1),
       Tao_codec_receive_frame 9 TAO_OK (Some demo_video_frame),
       Tao_frame_is_audio demo_video_frame, Tao_frame_free demo_video_frame,
       Tao_codec_receive_frame 9 TAO_OK (Some demo_frame),
       Tao_frame_is_audio demo_frame, Tao_frame_nb_samples demo_frame,
       Tao_frame_sample_rate demo_frame, Printf (FrameLine 1 1024 48000),
       Tao_frame_free demo_frame,
       Tao_codec_receive_frame 9 TAO_NEED_MORE_DATA None,
       Tao_format_read_packet 7 TAO_OK (Some (demo_packet 3 20 1)),
       Tao_packet_stream_index (demo_packet 3 20 1),
       Tao_codec_send_packet 9 (demo_packet 3 20 1) TAO_OK,
       Tao_packet_free (demo_packet 3 20 1),
       Tao_codec_receive_frame 9 TAO_OK None,
       Tao_format_read_packet 7 TAO_ERROR None, Fprintf_stderr (ErrReadPacket TAO_ERROR)] @
      wrapup \<lparr>packet_count = 2, frame_count = 1, total_samples = 1024\<rparr> 9 7, Some 0)"
  unfolding failing_lib_def scripted_main failing_loop by simp

lemma draining_loop:
  "decode_loop 7 9 1 (lib_read_packet demo_lib) (lib_send_packet demo_lib)
     [(TAO_OK, Some demo_frame)] \<lparr>packet_count = 0, frame_count = 0, total_samples = 0\<rparr> =
   ([Tao_format_read_packet 7 TAO_OK (Some (demo_packet 1 0 0)),
     Tao_packet_stream_index (demo_packet 1 0 0),
     Tao_packet_free (demo_packet 1 0 0),
     Tao_format_read_packet 7 TAO_OK (Some (demo_packet 2 10 1)),
     Tao_packet_stream_index (demo_packet 2 10 1),
     Tao_codec_send_packet 9 (demo_packet 2 10 1) TAO_ERROR,
     Tao_packet_free (demo_packet 2 10 1),
     Tao_format_read_packet 7 TAO_OK (Some (demo_packet 3 20 1)),
     Tao_packet_stream_index (demo_packet 3 20 1),
     Tao_codec_send_packet 9 (demo_packet 3 20 1) TAO_OK,
     Tao_packet_free (demo_packet 3 20 1),
     Tao_codec_receive_frame 9 TAO_OK (Some demo_frame),
     Tao_frame_is_audio demo_frame, Tao_frame_nb_samples demo_frame,
     Tao_frame_sample_rate demo_frame, Printf (FrameLine 1 1024 48000),
     Tao_frame_free demo_frame], None)"
  by (simp add: demo_lib_def Let_def status_distinct demo_packet_def demo_frame_def)

lemma draining_main:
  "main demo_argv draining_lib =
     (startup ''in.wav'' demo_lib @ scan demo_lib 7 @ create demo_lib 1 101 @
      [Tao_codec_open_decoder 9 44100 2 None 0 TAO_OK] @
      [Tao_format_read_packet 7 TAO_OK (Some (demo_packet 1 0 0)),
       Tao_packet_stream_index (demo_packet 1 0 0),
       Tao_packet_free (demo_packet 1 0 0),
       Tao_format_read_packet 7 TAO_OK (Some (demo_packet 2 10 1)),
       Tao_packet_stream_index (demo_packet 2 10 1),
       Tao_codec_send_packet 9 (demo_packet 2 10 1) TAO_ERROR,
       Tao_packet_free (demo_packet 2 10 1),
       Tao_format_read_packet 7 TAO_OK (Some (demo_packet 3 20 1)),
       Tao_packet_stream_index (demo_packet 3 20 1),
       Tao_codec_send_packet 9 (demo_packet 3 20 1) TAO_OK,
       Tao_packet_free (demo_packet 3 20 1),
       Tao_codec_receive_frame 9 TAO_OK (Some demo_frame),
       Tao_frame_is_audio demo_frame, Tao_frame_nb_samples demo_frame,
       Tao_frame_sample_rate demo_frame, Printf (FrameLine 1 1024 48000),
       Tao_frame_free demo_frame], None)"
proof -
  have eq: "draining_lib =
          demo_lib\<lparr>lib_read_packet := lib_read_packet demo_lib,
                    lib_send_packet := lib_send_packet demo_lib,
                    lib_receive_frame := [(TAO_OK, Some demo_frame)]\<rparr>"
    by (simp add: draining_lib_def)
  show ?thesis unfolding eq scripted_main draining_loop by simp
qed





text \<open>The answers in the sample traces.\<close>

lemma sample_prefix_answers:
  "reads_of (startup ''in.wav'' demo_lib @ scan demo_lib 7 @ create demo_lib 1 101 @
             Tao_codec_open_decoder 9 44100 2 None 0 TAO_OK # t) = reads_of t"
  "sends_of (startup ''in.wav'' demo_lib @ scan demo_lib 7 @ create demo_lib 1 101 @
             Tao_codec_open_decoder 9 44100 2 None 0 TAO_OK # t) = sends_of t"
  "recvs_of (startup ''in.wav'' demo_lib @ scan demo_lib 7 @ create demo_lib 1 101 @
             Tao_codec_open_decoder 9 44100 2 None 0 TAO_OK # t) = recvs_of t"
  by (simp_all add: startup_def demo_scan create_def answers_Cons answers_Nil)

lemma pending_call: "pending_at rdg wtg drg s t (lib_read_packet lib) (lib_send_packet lib)
                       (lib_receive_frame lib) \<Longrightarrow> call_pending lib t"
  by (auto simp: pending_at_def call_pending_def)

subsection \<open>Frame ownership\<close>

lemma frame_step_simps:
  "frame_step h (Tao_codec_receive_frame d ret frame) =
     (case h of Some a \<Rightarrow> None
      | None \<Rightarrow> Some (if ret = TAO_OK then map_option frm_addr frame else None))"
  "frame_step h (Tao_frame_is_audio fr) = (if h = Some (frm_addr fr) then Some h else None)"
  "frame_step h (Tao_frame_nb_samples fr) = (if h = Some (frm_addr fr) then Some h else None)"
  "frame_step h (Tao_frame_sample_rate fr) = (if h = Some (frm_addr fr) then Some h else None)"
  "frame_step h (Tao_frame_free fr) = (if h = Some (frm_addr fr) then Some None else None)"
  "frame_step h (Tao_format_read_packet f ret pkt) = Some h"
  "frame_step h (Tao_packet_stream_index p) = Some h"
  "frame_step h (Tao_codec_send_packet d p r) = Some h"
  "frame_step h (Tao_packet_free p) = Some h"
  "frame_step h (Printf x) = Some h"
  "frame_step h (Fprintf_stderr x) = Some h"
  by (simp_all add: frame_step_def)

lemma frame_step_outside: "outside_event e \<Longrightarrow> frame_step h e = Some h"
  by (cases e) (auto simp: outside_event_def scan_event_def frame_step_def)

lemma frame_loop:
  "\<exists>s'. run_monitor frame_step None (fst (decode_loop f d a reads sends recvs c)) = Some s' \<and>
         (case snd (decode_loop f d a reads sends recvs c) of
            Some c' \<Rightarrow> s' = None
          | None \<Rightarrow> pending_at (\<lambda>h. h = None) (\<lambda>h. h = None) (\<lambda>h. h = None) s'
                      (fst (decode_loop f d a reads sends recvs c)) reads sends recvs)"
  by (rule decode_loop_progress)
     (auto simp: frame_step_simps frame_body_def status_distinct drain_stop_def)

lemma frame_run_loop:
  "\<exists>s'. run_monitor frame_step None (fst (run_loop lib f d a)) = Some s' \<and>
         (case snd (run_loop lib f d a) of
            Some c' \<Rightarrow> s' = None
          | None \<Rightarrow> pending_at (\<lambda>h. h = None) (\<lambda>h. h = None) (\<lambda>h. h = None) s'
                      (fst (run_loop lib f d a))
                      (lib_read_packet lib) (lib_send_packet lib) (lib_receive_frame lib))"
  unfolding run_loop_def by (rule frame_loop)

text \<open>
  Claim C5. Every frame that \<open>tao_codec_receive_frame\<close> hands over (status \<open>TAO_OK\<close>,
  non-null pointer) is released by \<open>tao_frame_free\<close> exactly once, in the iteration of
  the frame loop that received it, after the accessor calls on it and with no use of it
  afterwards. The frame ownership monitor reads every trace of \<open>main\<close> without a
  violation and ends owning no frame, whether \<open>main\<close> has returned or waits for the
  library; the frames received are the library's answers in order; and \<open>main\<close> is without
  exit status only while a library call is pending.
\<close>

theorem frame_released_exactly_once:
  "run_monitor frame_step None (fst (main argv lib)) = Some None \<and>
   (\<exists>vs. lib_receive_frame lib = recvs_of (fst (main argv lib)) @ vs) \<and>
   (snd (main argv lib) = None \<longrightarrow> call_pending lib (fst (main argv lib)))"
proof -
  have "\<exists>s'. run_monitor frame_step None (fst (main argv lib)) = Some s' \<and>
           (case snd (main argv lib) of
              None \<Rightarrow> pending_at (\<lambda>h. h = None) (\<lambda>h. h = None) (\<lambda>h. h = None) s'
                        (fst (main argv lib))
                        (lib_read_packet lib) (lib_send_packet lib) (lib_receive_frame lib)
            | Some rc \<Rightarrow> (rc = 1 \<and> s' = None) \<or> (rc = 0 \<and> s' = None))"
    by (rule main_progress [OF _ _ frame_run_loop]) (simp_all add: frame_step_outside)
  then obtain s' where
    s': "run_monitor frame_step None (fst (main argv lib)) = Some s'"
    and res: "case snd (main argv lib) of
              None \<Rightarrow> pending_at (\<lambda>h. h = None) (\<lambda>h. h = None) (\<lambda>h. h = None) s'
                        (fst (main argv lib))
                        (lib_read_packet lib) (lib_send_packet lib) (lib_receive_frame lib)
            | Some rc \<Rightarrow> (rc = 1 \<and> s' = None) \<or> (rc = 0 \<and> s' = None)"
    by blast
  have "s' = None" using res by (auto simp: pending_at_def split: option.splits)
  moreover have "snd (main argv lib) = None \<longrightarrow> call_pending lib (fst (main argv lib))"
    using res by (auto dest: pending_call)
  moreover have "\<exists>vs. lib_receive_frame lib = recvs_of (fst (main argv lib)) @ vs"
    using main_answers [of lib argv] by blast
  ultimately show ?thesis using s' by simp
qed

theorem frame_released_exactly_once_witness:
  "snd (main demo_argv failing_lib) = Some 0 \<and>
   recvs_of (fst (main demo_argv failing_lib)) = lib_receive_frame failing_lib \<and>
   Tao_frame_free demo_video_frame \<in> set (fst (main demo_argv failing_lib)) \<and>
   Tao_frame_free demo_frame \<in> set (fst (main demo_argv failing_lib)) \<and>
   run_monitor frame_step None (fst (main demo_argv failing_lib)) = Some None \<and>
   snd (main demo_argv draining_lib) = None \<and>
   call_pending draining_lib (fst (main demo_argv draining_lib)) \<and>
   run_monitor frame_step None (fst (main demo_argv draining_lib)) = Some None"
proof -
  have "lib_receive_frame failing_lib =
          [(TAO_OK, Some demo_video_frame), (TAO_OK, Some demo_frame),
           (TAO_NEED_MORE_DATA, None), (TAO_OK, None)]"
    by (simp add: failing_lib_def)
  then have a: "recvs_of (fst (main demo_argv failing_lib)) = lib_receive_frame failing_lib"
    by (simp add: failing_main sample_prefix_answers answers_Cons answers_Nil wrapup_def)
  have b: "Tao_frame_free demo_video_frame \<in> set (fst (main demo_argv failing_lib))"
          "Tao_frame_free demo_frame \<in> set (fst (main demo_argv failing_lib))"
    by (simp_all add: failing_main)
  have c: "snd (main demo_argv draining_lib) = None" "snd (main demo_argv failing_lib) = Some 0"
    by (simp_all add: draining_main failing_main)
  from frame_released_exactly_once [of demo_argv failing_lib]
    frame_released_exactly_once [of demo_argv draining_lib] a b c
  show ?thesis by simp
qed

subsection \<open>Draining\<close>

lemma drain_step_simps:
  "drain_step s (Tao_codec_send_packet d p r) =
     (case s of Idle \<Rightarrow> Some (if r = TAO_OK then Draining d else Idle) | Draining d' \<Rightarrow> None)"
  "drain_step s (Tao_codec_receive_frame d ret frame) =
     (case s of Idle \<Rightarrow> None
      | Draining d' \<Rightarrow>
          if d = d' then Some (if drain_stop ret frame then Idle else Draining d') else None)"
  "drain_step s (Tao_format_read_packet f ret pkt) =
     (case s of Idle \<Rightarrow> Some Idle | Draining d' \<Rightarrow> None)"
  "drain_step s (Tao_packet_stream_index p) = Some s"
  "drain_step s (Tao_packet_free p) = Some s"
  "drain_step s (Tao_frame_is_audio fr) = Some s"
  "drain_step s (Tao_frame_nb_samples fr) = Some s"
  "drain_step s (Tao_frame_sample_rate fr) = Some s"
  "drain_step s (Tao_frame_free fr) = Some s"
  "drain_step s (Printf x) = Some s"
  "drain_step s (Fprintf_stderr x) = Some s"
  by (simp_all add: drain_step_def)

lemma drain_step_outside: "outside_event e \<Longrightarrow> drain_step s e = Some s"
  by (cases e) (auto simp: outside_event_def scan_event_def drain_step_def)

lemma drain_loop:
  "\<exists>s'. run_monitor drain_step Idle (fst (decode_loop f d a reads sends recvs c)) = Some s' \<and>
         (case snd (decode_loop f d a reads sends recvs c) of
            Some c' \<Rightarrow> s' = Idle
          | None \<Rightarrow> pending_at (\<lambda>s. s = Idle) (\<lambda>s. s = Idle) (\<lambda>s. s = Draining d) s'
                      (fst (decode_loop f d a reads sends recvs c)) reads sends recvs)"
  by (rule decode_loop_progress)
     (auto simp: drain_step_simps frame_body_def status_distinct drain_stop_def)

lemma drain_run_loop:
  "\<exists>s'. run_monitor drain_step Idle (fst (run_loop lib f d a)) = Some s' \<and>
         (case snd (run_loop lib f d a) of
            Some c' \<Rightarrow> s' = Idle
          | None \<Rightarrow> pending_at (\<lambda>s. s = Idle) (\<lambda>s. s = Idle) (\<lambda>s. \<exists>d. s = Draining d) s'
                      (fst (run_loop lib f d a))
                      (lib_read_packet lib) (lib_send_packet lib) (lib_receive_frame lib))"
  unfolding run_loop_def
  using drain_loop [of f d a "lib_read_packet lib" "lib_send_packet lib" "lib_receive_frame lib"
      "\<lparr>packet_count = 0, frame_count = 0, total_samples = 0\<rparr>"]
  by (auto simp: pending_at_def split: option.splits)

text \<open>
  Claim C4. After each submission that returned \<open>TAO_OK\<close> the program calls
  \<open>tao_codec_receive_frame\<close> on that decoder until a call returns
  \<open>TAO_NEED_MORE_DATA\<close>, \<open>TAO_EOF\<close>, another status than \<open>TAO_OK\<close>, or no frame, and
  only then reads the next packet; it receives frames at no other time. The drain monitor
  accepts every run; the receive calls get the library's answers in order; and a run
  that is still draining has consumed every answer of \<open>tao_codec_receive_frame\<close>: it stops
  receiving only for a stopping result or for a call that has not returned.
\<close>

theorem drains_after_accepted_send:
  "accepts drain_step Idle (\<lambda>s. s = Idle) (main argv lib) \<and>
   (\<exists>vs. lib_receive_frame lib = recvs_of (fst (main argv lib)) @ vs) \<and>
   (\<forall>d. run_monitor drain_step Idle (fst (main argv lib)) = Some (Draining d) \<longrightarrow>
        snd (main argv lib) = None \<and> recvs_of (fst (main argv lib)) = lib_receive_frame lib) \<and>
   (snd (main argv lib) = None \<longrightarrow> call_pending lib (fst (main argv lib)))"
proof -
  have "\<exists>s'. run_monitor drain_step Idle (fst (main argv lib)) = Some s' \<and>
           (case snd (main argv lib) of
              None \<Rightarrow> pending_at (\<lambda>s. s = Idle) (\<lambda>s. s = Idle) (\<lambda>s. \<exists>d. s = Draining d) s'
                        (fst (main argv lib))
                        (lib_read_packet lib) (lib_send_packet lib) (lib_receive_frame lib)
            | Some rc \<Rightarrow> (rc = 1 \<and> s' = Idle) \<or> (rc = 0 \<and> s' = Idle))"
    by (rule main_progress [OF _ _ drain_run_loop]) (simp_all add: drain_step_outside)
  then obtain s' where
    s': "run_monitor drain_step Idle (fst (main argv lib)) = Some s'"
    and res: "case snd (main argv lib) of
              None \<Rightarrow> pending_at (\<lambda>s. s = Idle) (\<lambda>s. s = Idle) (\<lambda>s. \<exists>d. s = Draining d) s'
                        (fst (main argv lib))
                        (lib_read_packet lib) (lib_send_packet lib) (lib_receive_frame lib)
            | Some rc \<Rightarrow> (rc = 1 \<and> s' = Idle) \<or> (rc = 0 \<and> s' = Idle)"
    by blast
  have acc: "accepts drain_step Idle (\<lambda>s. s = Idle) (main argv lib)"
    using s' res by (auto simp: accepts_def split: option.splits)
  have dr: "snd (main argv lib) = None \<and> recvs_of (fst (main argv lib)) = lib_receive_frame lib"
    if "s' = Draining d" for d
    using res that by (auto simp: pending_at_def split: option.splits)
  have pend: "snd (main argv lib) = None \<longrightarrow> call_pending lib (fst (main argv lib))"
    using res by (auto dest: pending_call)
  have c2: "\<exists>vs. lib_receive_frame lib = recvs_of (fst (main argv lib)) @ vs"
    using main_answers [of lib argv] by blast
  have c3: "\<forall>d. run_monitor drain_step Idle (fst (main argv lib)) = Some (Draining d) \<longrightarrow>
        snd (main argv lib) = None \<and> recvs_of (fst (main argv lib)) = lib_receive_frame lib"
    using dr s' by simp
  show ?thesis by (intro conjI acc c2 c3 pend)
qed

theorem drains_after_accepted_send_witness:
  "snd (main demo_argv failing_lib) = Some 0 \<and>
   recvs_of (fst (main demo_argv failing_lib)) =
     [(TAO_OK, Some demo_video_frame), (TAO_OK, Some demo_frame), (TAO_NEED_MORE_DATA, None),
      (TAO_OK, None)] \<and>
   run_monitor drain_step Idle (fst (main demo_argv failing_lib)) = Some Idle \<and>
   run_monitor drain_step Idle (fst (main demo_argv draining_lib)) = Some (Draining 9) \<and>
   snd (main demo_argv draining_lib) = None \<and>
   recvs_of (fst (main demo_argv draining_lib)) = lib_receive_frame draining_lib \<and>
   call_pending draining_lib (fst (main demo_argv draining_lib))"
proof -
  have a: "recvs_of (fst (main demo_argv failing_lib)) =
     [(TAO_OK, Some demo_video_frame), (TAO_OK, Some demo_frame), (TAO_NEED_MORE_DATA, None),
      (TAO_OK, None)]"
    by (simp add: failing_main sample_prefix_answers answers_Cons answers_Nil wrapup_def)
  have b: "run_monitor drain_step Idle (fst (main demo_argv draining_lib)) = Some (Draining 9)"
    by (simp add: draining_main startup_def demo_scan create_def drain_step_def drain_stop_def
          status_distinct)
  have c: "snd (main demo_argv failing_lib) = Some 0" by (simp add: failing_main)
  from drains_after_accepted_send [of demo_argv failing_lib] c
  have d: "run_monitor drain_step Idle (fst (main demo_argv failing_lib)) = Some Idle"
    by (auto simp: accepts_def split: option.splits)
  note dr = drains_after_accepted_send [of demo_argv draining_lib]
  from dr b
  have e1: "snd (main demo_argv draining_lib) = None \<and>
            recvs_of (fst (main demo_argv draining_lib)) = lib_receive_frame draining_lib"
    by simp
  with dr
  have e: "snd (main demo_argv draining_lib) = None \<and>
           recvs_of (fst (main demo_argv draining_lib)) = lib_receive_frame draining_lib \<and>
           call_pending draining_lib (fst (main demo_argv draining_lib))"
    by simp
  from a b c d e show ?thesis by simp
qed

subsection \<open>End of stream and read errors\<close>

lemma eof_step_simps:
  "eof_step Reading (Tao_format_read_packet f ret pkt) =
     Some (case read_outcome ret pkt of
             Packet p \<Rightarrow> Reading | EndOfStream \<Rightarrow> SawEof | ReadError \<Rightarrow> SawError ret)"
  "eof_step SawEof e = (if e = Printf EndOfFileLine then Some EndedByEof else None)"
  "eof_step (SawError r) e =
     (if e = Fprintf_stderr (ErrReadPacket r) then Some EndedByError else None)"
  "eof_step Reading (Tao_packet_stream_index p) = Some Reading"
  "eof_step Reading (Tao_packet_free p) = Some Reading"
  "eof_step Reading (Tao_codec_send_packet d p r) = Some Reading"
  "eof_step Reading (Tao_codec_receive_frame d ret frame) = Some Reading"
  "eof_step Reading (Tao_frame_is_audio fr) = Some Reading"
  "eof_step Reading (Tao_frame_nb_samples fr) = Some Reading"
  "eof_step Reading (Tao_frame_sample_rate fr) = Some Reading"
  "eof_step Reading (Tao_frame_free fr) = Some Reading"
  "eof_step Reading (Printf (FrameLine n k sr)) = Some Reading"
  by (simp_all add: eof_step_def)

lemma eof_step_outside: "outside_event e \<Longrightarrow> read_loop_left s \<Longrightarrow> eof_step s e = Some s"
  by (cases e)
     (auto simp: outside_event_def scan_event_def eof_step_def read_loop_left_def
           split: out.splits)

lemma read_outcome_simps:
  "read_outcome TAO_EOF pkt = EndOfStream"
  "read_outcome TAO_OK (Some p) = Packet p"
  "ret \<noteq> TAO_EOF \<Longrightarrow> ret \<noteq> TAO_OK \<or> pkt = None \<Longrightarrow> read_outcome ret pkt = ReadError"
  by (auto simp: read_outcome_def status_distinct)

lemma eof_loop:
  "\<exists>s'. run_monitor eof_step Reading (fst (decode_loop f d a reads sends recvs c)) = Some s' \<and>
         (case snd (decode_loop f d a reads sends recvs c) of
            Some c' \<Rightarrow> s' = EndedByEof \<or> s' = EndedByError
          | None \<Rightarrow> pending_at (\<lambda>s. s = Reading) (\<lambda>s. s = Reading) (\<lambda>s. s = Reading) s'
                      (fst (decode_loop f d a reads sends recvs c)) reads sends recvs)"
  by (rule decode_loop_progress)
     (auto simp: eof_step_simps read_outcome_simps frame_body_def)

lemma eof_run_loop:
  "\<exists>s'. run_monitor eof_step Reading (fst (run_loop lib f d a)) = Some s' \<and>
         (case snd (run_loop lib f d a) of
            Some c' \<Rightarrow> s' = EndedByEof \<or> s' = EndedByError
          | None \<Rightarrow> pending_at (\<lambda>s. s = Reading) (\<lambda>s. s = Reading) (\<lambda>s. s = Reading) s'
                      (fst (run_loop lib f d a))
                      (lib_read_packet lib) (lib_send_packet lib) (lib_receive_frame lib))"
  unfolding run_loop_def by (rule eof_loop)

text \<open>
  Claim C2. The three outcomes of \<open>tao_format_read_packet\<close> have different status
  codes, and the program tells them apart: on \<open>TAO_EOF\<close> it prints the end-of-file line
  and leaves the read loop, on any other status than \<open>TAO_OK\<close>, or on \<open>TAO_OK\<close> without
  a packet, it prints the read error with the status to standard error and leaves the
  loop, and it prints neither line while packets arrive. The reads of a trace are the
  library's answers in order; the monitor is never left waiting for one of the two lines;
  \<open>main\<close> returns 0 exactly when the loop was left by an end of stream or a read error;
  and it is without exit status only while a library call is pending.
\<close>

theorem end_of_stream_is_not_an_error:
  "TAO_OK \<noteq> TAO_EOF \<and> TAO_EOF \<noteq> TAO_ERROR \<and> TAO_OK \<noteq> TAO_ERROR \<and>
   (\<exists>rs. lib_read_packet lib = reads_of (fst (main argv lib)) @ rs) \<and>
   (\<exists>s. run_monitor eof_step Reading (fst (main argv lib)) = Some s \<and> read_loop_left s \<and>
        ((s = EndedByEof \<or> s = EndedByError) \<longleftrightarrow> snd (main argv lib) = Some 0)) \<and>
   (snd (main argv lib) = None \<longrightarrow> call_pending lib (fst (main argv lib)))"
proof -
  have "\<exists>s'. run_monitor eof_step Reading (fst (main argv lib)) = Some s' \<and>
           (case snd (main argv lib) of
              None \<Rightarrow> pending_at (\<lambda>s. s = Reading) (\<lambda>s. s = Reading) (\<lambda>s. s = Reading) s'
                        (fst (main argv lib))
                        (lib_read_packet lib) (lib_send_packet lib) (lib_receive_frame lib)
            | Some rc \<Rightarrow> (rc = 1 \<and> s' = Reading) \<or>
                         (rc = 0 \<and> (s' = EndedByEof \<or> s' = EndedByError)))"
    by (rule main_progress [OF _ _ eof_run_loop])
       (auto simp: eof_step_outside read_loop_left_def)
  then obtain s' where
    s': "run_monitor eof_step Reading (fst (main argv lib)) = Some s'"
    and res: "case snd (main argv lib) of
              None \<Rightarrow> pending_at (\<lambda>s. s = Reading) (\<lambda>s. s = Reading) (\<lambda>s. s = Reading) s'
                        (fst (main argv lib))
                        (lib_read_packet lib) (lib_send_packet lib) (lib_receive_frame lib)
            | Some rc \<Rightarrow> (rc = 1 \<and> s' = Reading) \<or>
                         (rc = 0 \<and> (s' = EndedByEof \<or> s' = EndedByError))"
    by blast
  have left: "read_loop_left s'"
    using res by (auto simp: pending_at_def read_loop_left_def split: option.splits)
  have iff: "(s' = EndedByEof \<or> s' = EndedByError) \<longleftrightarrow> snd (main argv lib) = Some 0"
    using res by (auto simp: pending_at_def split: option.splits)
  have pend: "snd (main argv lib) = None \<longrightarrow> call_pending lib (fst (main argv lib))"
    using res by (auto dest: pending_call)
  have c1: "\<exists>rs. lib_read_packet lib = reads_of (fst (main argv lib)) @ rs"
    using main_answers [of lib argv] by blast
  have c2: "\<exists>s. run_monitor eof_step Reading (fst (main argv lib)) = Some s \<and>
              read_loop_left s \<and>
              ((s = EndedByEof \<or> s = EndedByError) \<longleftrightarrow> snd (main argv lib) = Some 0)"
    using s' left iff by blast
  show ?thesis by (intro conjI c1 c2 pend status_distinct)
qed

theorem end_of_stream_is_not_an_error_witness:
  "snd (main demo_argv demo_lib) = Some 0 \<and>
   run_monitor eof_step Reading (fst (main demo_argv demo_lib)) = Some EndedByEof \<and>
   Printf EndOfFileLine \<in> set (fst (main demo_argv demo_lib)) \<and>
   snd (main demo_argv failing_lib) = Some 0 \<and>
   run_monitor eof_step Reading (fst (main demo_argv failing_lib)) = Some EndedByError \<and>
   Fprintf_stderr (ErrReadPacket TAO_ERROR) \<in> set (fst (main demo_argv failing_lib)) \<and>
   reads_of (fst (main demo_argv failing_lib)) = lib_read_packet failing_lib \<and>
   snd (main demo_argv draining_lib) = None \<and>
   run_monitor eof_step Reading (fst (main demo_argv draining_lib)) = Some Reading \<and>
   call_pending draining_lib (fst (main demo_argv draining_lib))"
proof -
  have a: "run_monitor eof_step Reading (fst (main demo_argv demo_lib)) = Some EndedByEof"
    by (simp add: demo_main demo_loop startup_def demo_scan create_def wrapup_def
          eof_step_def read_outcome_def status_distinct demo_packet_def)
  have b: "run_monitor eof_step Reading (fst (main demo_argv failing_lib)) = Some EndedByError"
    by (simp add: failing_main startup_def demo_scan create_def wrapup_def
          eof_step_def read_outcome_def status_distinct demo_packet_def)
  have c: "Printf EndOfFileLine \<in> set (fst (main demo_argv demo_lib))"
          "Fprintf_stderr (ErrReadPacket TAO_ERROR) \<in> set (fst (main demo_argv failing_lib))"
    by (simp_all add: demo_main demo_loop failing_main)
  have "lib_read_packet failing_lib =
          [(TAO_OK, Some (demo_packet 2 10 1)), (TAO_OK, Some (demo_packet 3 20 1)),
           (TAO_ERROR, None)]"
    by (simp add: failing_lib_def)
  then have d: "reads_of (fst (main demo_argv failing_lib)) = lib_read_packet failing_lib"
    by (simp add: failing_main sample_prefix_answers answers_Cons answers_Nil wrapup_def)
  have e: "snd (main demo_argv draining_lib) = None" by (simp add: draining_main)
  have f: "run_monitor eof_step Reading (fst (main demo_argv draining_lib)) = Some Reading"
    by (simp add: draining_main startup_def demo_scan create_def
          eof_step_def read_outcome_def status_distinct demo_packet_def)
  from end_of_stream_is_not_an_error [of demo_lib demo_argv] a
  have g: "snd (main demo_argv demo_lib) = Some 0" by auto
  from end_of_stream_is_not_an_error [of failing_lib demo_argv] b
  have h: "snd (main demo_argv failing_lib) = Some 0" by auto
  from end_of_stream_is_not_an_error [of draining_lib demo_argv] e
  have i: "call_pending draining_lib (fst (main demo_argv draining_lib))" by blast
  from a b c d e f g h i show ?thesis by simp
qed

subsection \<open>Rejected submissions\<close>








end
